theory Spec2Isabelle
  imports Main "HOL-Library.Word" "HOL-Library.AList"
begin

section \<open>Python values, errors and the store's configuration\<close>

text \<open>
  The module under verification is \<^verbatim>\<open>haystack/document_stores/weaviate.py\<close>, the
  class \<^verbatim>\<open>WeaviateDocumentStore\<close>. Its data are duck-typed Python values: the JSON
  results of the backend, the flattened field dicts of documents, meta values.
  They are modelled by one datatype. A dict is an association list in insertion
  order with string keys. A float is carried as mantissa and exponent: the code
  only inspects its runtime type. A string is a list of 8-bit characters, read
  as code points below 256.
\<close>

datatype pyval =
    PyNone
  | PyBool bool
  | PyInt int
  | PyFloat int int
  | PyStr string
  | PyList "pyval list"
  | PyDict "(string \<times> pyval) list"

type_synonym pydict = "(string \<times> pyval) list"

text \<open>Every exception the modelled code can raise is a value.\<close>

datatype error =
    NotImplementedError string
  | IndexError
  | KeyError string
  | TypeError
  | AttributeError
  | ValueError
  | JSONDecodeError
  | BackendError

definition and_then :: "error + 'a \<Rightarrow> ('a \<Rightarrow> error + 'b) \<Rightarrow> error + 'b" where
  "and_then m f = (case m of Inl e \<Rightarrow> Inl e | Inr x \<Rightarrow> f x)"

text \<open>Python truthiness (\<^verbatim>\<open>if x:\<close>, \<^verbatim>\<open>not x\<close>, \<^verbatim>\<open>x or y\<close>).\<close>

fun truthy :: "pyval \<Rightarrow> bool" where
  "truthy PyNone = False"
| "truthy (PyBool b) = b"
| "truthy (PyInt i) = (i \<noteq> 0)"
| "truthy (PyFloat m e) = (m \<noteq> 0)"
| "truthy (PyStr s) = (s \<noteq> [])"
| "truthy (PyList xs) = (xs \<noteq> [])"
| "truthy (PyDict d) = (d \<noteq> [])"

text \<open>
  The fields of \<^verbatim>\<open>self\<close> that the modelled methods read. The store is
  constructed with an index name (the default is \<^verbatim>\<open>"Document"\<close>), and
  \<^verbatim>\<open>self.index\<close> is what \<^verbatim>\<open>_sanitize_index_name\<close> made of it. A custom schema is
  the list of its classes, each with its properties (name and first data type).
\<close>

type_synonym schema_class = "string \<times> (string \<times> string) list"

record store =
  index :: string
  content_field :: string
  name_field :: string
  embedding_field :: string
  return_embedding :: bool
  custom_schema :: "schema_class list option"

section \<open>Index names\<close>

text \<open>
  \<^verbatim>\<open>str.upper\<close> and \<^verbatim>\<open>str.lower\<close> on one character, for the ASCII letters; every
  other character is left as it is.
\<close>

definition upper_char :: "char \<Rightarrow> char" where
  "upper_char c =
     (case map_of (zip ''abcdefghijklmnopqrstuvwxyz'' ''ABCDEFGHIJKLMNOPQRSTUVWXYZ'') c of
        Some u \<Rightarrow> u | None \<Rightarrow> c)"

definition lower_char :: "char \<Rightarrow> char" where
  "lower_char c =
     (case map_of (zip ''ABCDEFGHIJKLMNOPQRSTUVWXYZ'' ''abcdefghijklmnopqrstuvwxyz'') c of
        Some l \<Rightarrow> l | None \<Rightarrow> c)"

text \<open>\<^verbatim>\<open>str.capitalize\<close>: the first character upper-cased, the rest lower-cased.\<close>

fun capitalize :: "string \<Rightarrow> string" where
  "capitalize [] = []"
| "capitalize (c # cs) = upper_char c # map lower_char cs"

text \<open>
  \<^verbatim>\<open>s.split(sep)\<close> for a one-character separator: the pieces between the
  separators, empty pieces included, never an empty list.
\<close>

fun split_sep :: "char \<Rightarrow> string \<Rightarrow> string list" where
  "split_sep sep [] = [[]]"
| "split_sep sep (c # cs) =
     (if c = sep then [] # split_sep sep cs
      else (case split_sep sep cs of
              [] \<Rightarrow> [[c]]
            | w # ws \<Rightarrow> (c # w) # ws))"

text \<open>
  \<^verbatim>\<open>_sanitize_index_name\<close> (lines 176-182). \<^verbatim>\<open>index[0]\<close> on the empty string
  raises IndexError.
\<close>

definition sanitize_index_name :: "string option \<Rightarrow> error + string option" where
  "sanitize_index_name idx =
     (case idx of
        None \<Rightarrow> Inr None
      | Some s \<Rightarrow>
          if CHR ''_'' \<in> set s
          then Inr (Some (concat (map capitalize (split_sep CHR ''_'' s))))
          else (case s of
                  [] \<Rightarrow> Inl IndexError
                | c # cs \<Rightarrow> Inr (Some (upper_char c # cs))))"

text \<open>
  The line \<^verbatim>\<open>index = self._sanitize_index_name(index) or self.index\<close> that opens
  most methods: \<^verbatim>\<open>None\<close> and the empty string are falsy.
\<close>

definition resolve_index :: "store \<Rightarrow> string option \<Rightarrow> error + string" where
  "resolve_index self idx =
     and_then (sanitize_index_name idx)
       (\<lambda>r. Inr (case r of None \<Rightarrow> index self | Some s \<Rightarrow> if s = [] then index self else s))"

section \<open>Identifier normalisation\<close>

text \<open>
  \<^verbatim>\<open>UUID_PATTERN = re.compile(r"^[\da-f]{8}-([\da-f]{4}-){3}[\da-f]{12}$", re.IGNORECASE)\<close>
  (line 28), used through \<^verbatim>\<open>UUID_PATTERN.match(id)\<close>. Among 8-bit characters
  \<^verbatim>\<open>\d\<close> is 0-9. The five groups are what splitting at the hyphens gives, since
  no hexadecimal digit is a hyphen. In Python, \<^verbatim>\<open>$\<close> matches at the end of the
  string and also just before a newline that ends the string.
\<close>

definition is_hex :: "char \<Rightarrow> bool" where
  "is_hex c = (c \<in> set ''0123456789abcdefABCDEF'')"

definition uuid_groups :: "string \<Rightarrow> bool" where
  "uuid_groups s =
     (let gs = split_sep CHR ''-'' s
      in map length gs = [8, 4, 4, 4, 12] \<and> list_all (list_all is_hex) gs)"

definition UUID_PATTERN_match :: "string \<Rightarrow> bool" where
  "UUID_PATTERN_match s =
     (uuid_groups s \<or> (s \<noteq> [] \<and> last s = CHR 0x0A \<and> uuid_groups (butlast s)))"

text \<open>
  The canonical UUID grammar in the specification's words: case-insensitive
  8-4-4-4-12 hexadecimal groups, and nothing else.
\<close>

definition canonical_uuid :: "string \<Rightarrow> bool" where
  "canonical_uuid s =
     (length s = 36 \<and>
      list_all is_hex (take 8 s) \<and> s ! 8 = CHR ''-'' \<and>
      list_all is_hex (take 4 (drop 9 s)) \<and> s ! 13 = CHR ''-'' \<and>
      list_all is_hex (take 4 (drop 14 s)) \<and> s ! 18 = CHR ''-'' \<and>
      list_all is_hex (take 4 (drop 19 s)) \<and> s ! 23 = CHR ''-'' \<and>
      list_all is_hex (drop 24 s))"

text \<open>
  \<^verbatim>\<open>hashlib.sha256(b).hexdigest()\<close>: the SHA-256 function itself is a parameter
  of the model, a function from the text that is encoded and hashed to the
  256-bit digest. The digest is printed as 64 lower-case hexadecimal digits,
  most significant first.
\<close>

definition hex_digit :: "nat \<Rightarrow> char" where
  "hex_digit n = ''0123456789abcdef'' ! (n mod 16)"

definition hexdigest :: "256 word \<Rightarrow> string" where
  "hexdigest w = map (\<lambda>i. hex_digit (unat (drop_bit (4 * (63 - i)) w))) [0..<64]"

text \<open>The slice \<^verbatim>\<open>[::2]\<close>: the characters at the even positions.\<close>

fun every_second :: "'a list \<Rightarrow> 'a list" where
  "every_second [] = []"
| "every_second [x] = [x]"
| "every_second (x # y # xs) = x # every_second xs"

text \<open>
  \<^verbatim>\<open>str(uuid.UUID(h))\<close> for a string of 32 hexadecimal digits: the digits in
  lower case, grouped 8-4-4-4-12. The other spellings that \<^verbatim>\<open>uuid.UUID\<close> accepts
  (braces, hyphens, a \<^verbatim>\<open>urn:uuid:\<close> prefix) never reach it from this module
  and are not modelled; a string of another length raises ValueError.
\<close>

definition str_UUID :: "string \<Rightarrow> error + string" where
  "str_UUID h =
     (if length h = 32 \<and> list_all is_hex h
      then (let l = map lower_char h
            in Inr (take 8 l @ ''-'' @ take 4 (drop 8 l) @ ''-'' @ take 4 (drop 12 l) @ ''-''
                    @ take 4 (drop 16 l) @ ''-'' @ drop 20 l))
      else Inl ValueError)"

text \<open>
  \<^verbatim>\<open>_sanitize_id\<close> (lines 324-339). The warning that is logged once per store
  does not influence the returned id and is left out.
\<close>

definition sanitize_id ::
  "(string \<Rightarrow> 256 word) \<Rightarrow> store \<Rightarrow> string \<Rightarrow> string option \<Rightarrow> error + string" where
  "sanitize_id sha256 self ident idx =
     and_then (resolve_index self idx)
       (\<lambda>index'.
          if \<not> UUID_PATTERN_match ident
          then str_UUID (every_second (hexdigest (sha256 (ident @ index'))))
          else Inr ident)"

section \<open>Collaborators outside the module\<close>

text \<open>
  What the module calls and does not define is a parameter of the model:
  \<^item> \<open>sha256\<close>: \<^verbatim>\<open>hashlib.sha256\<close> of the UTF-8 encoding of a text;
  \<^item> \<open>convert_date_to_rfc3339\<close>: the helper of that name in
    \<^verbatim>\<open>haystack.document_stores.utils\<close>, applied to a string; \<open>None\<close> when it raises
    ValueError;
  \<^item> \<open>repr\<close>: \<^verbatim>\<open>str(v)\<close> for a value that is not a string;
  \<^item> \<open>json_loads\<close>, \<open>json_dumps\<close>: the functions of the \<^verbatim>\<open>json\<close> module; \<open>None\<close>
    when \<^verbatim>\<open>json.loads\<close> raises;
  \<^item> \<open>convert_to_weaviate\<close>: \<^verbatim>\<open>LogicalFilterClause.parse(filters).convert_to_weaviate()\<close>;
    \<open>None\<close> when it raises;
  \<^item> \<open>where_matches\<close>: whether the backend finds that the properties of an
    object satisfy a compiled filter;
  \<^item> \<open>hash_id\<close>: the id that \<^verbatim>\<open>Document\<close> derives from the content when it is
    given none.
\<close>

record collaborators =
  sha256 :: "string \<Rightarrow> 256 word"
  convert_date_to_rfc3339 :: "string \<Rightarrow> string option"
  repr :: "pyval \<Rightarrow> string"
  json_loads :: "string \<Rightarrow> pyval option"
  json_dumps :: "pyval \<Rightarrow> string"
  convert_to_weaviate :: "pydict \<Rightarrow> pyval option"
  where_matches :: "pyval \<Rightarrow> pydict \<Rightarrow> bool"
  hash_id :: "pyval \<Rightarrow> string"

text \<open>\<^verbatim>\<open>str(v)\<close>: a string is returned as it is.\<close>

definition py_str :: "collaborators \<Rightarrow> pyval \<Rightarrow> string" where
  "py_str E v = (case v of PyStr s \<Rightarrow> s | _ \<Rightarrow> repr E v)"

text \<open>
  \<^verbatim>\<open>convert_date_to_rfc3339(v)\<close> on any value: \<^verbatim>\<open>datetime.fromisoformat\<close> raises
  TypeError for an argument that is not a string.
\<close>

definition convert_date :: "collaborators \<Rightarrow> pyval \<Rightarrow> error + pyval" where
  "convert_date E v =
     (case v of
        PyStr s \<Rightarrow> (case convert_date_to_rfc3339 E s of
                      None \<Rightarrow> Inl ValueError
                    | Some r \<Rightarrow> Inr (PyStr r))
      | _ \<Rightarrow> Inl TypeError)"

section \<open>Dict and container operations\<close>

text \<open>\<^verbatim>\<open>k in d\<close>, \<^verbatim>\<open>d.get(k)\<close>, \<^verbatim>\<open>d[k]\<close> for a dict \<open>d\<close>; \<^verbatim>\<open>d[k] = v\<close> is
  \<open>AList.update\<close> (the key keeps its place, a new key goes last) and
  \<^verbatim>\<open>d.pop(k, None)\<close> is \<open>AList.delete\<close>.\<close>

definition has_key :: "string \<Rightarrow> pydict \<Rightarrow> bool" where
  "has_key k d = (k \<in> set (map fst d))"

definition dict_get :: "pydict \<Rightarrow> string \<Rightarrow> pyval" where
  "dict_get d k = (case map_of d k of Some v \<Rightarrow> v | None \<Rightarrow> PyNone)"

definition dict_item :: "pydict \<Rightarrow> string \<Rightarrow> error + pyval" where
  "dict_item d k = (case map_of d k of Some v \<Rightarrow> Inr v | None \<Rightarrow> Inl (KeyError k))"

text \<open>Substring test, for \<^verbatim>\<open>k in s\<close> on a string \<open>s\<close>.\<close>

fun is_prefix :: "string \<Rightarrow> string \<Rightarrow> bool" where
  "is_prefix [] ys = True"
| "is_prefix (x # xs) [] = False"
| "is_prefix (x # xs) (y # ys) = (x = y \<and> is_prefix xs ys)"

fun str_contains :: "string \<Rightarrow> string \<Rightarrow> bool" where
  "str_contains k [] = (k = [])"
| "str_contains k (c # cs) = (is_prefix k (c # cs) \<or> str_contains k cs)"

text \<open>
  \<^verbatim>\<open>k in v\<close> and \<^verbatim>\<open>v[k]\<close> for a string key \<open>k\<close> and any value \<open>v\<close>, as the
  code applies them to values whose shape it does not check.
\<close>

definition py_contains :: "string \<Rightarrow> pyval \<Rightarrow> error + bool" where
  "py_contains k v =
     (case v of
        PyDict d \<Rightarrow> Inr (has_key k d)
      | PyList xs \<Rightarrow> Inr (PyStr k \<in> set xs)
      | PyStr s \<Rightarrow> Inr (str_contains k s)
      | _ \<Rightarrow> Inl TypeError)"

definition py_getitem :: "pyval \<Rightarrow> string \<Rightarrow> error + pyval" where
  "py_getitem v k = (case v of PyDict d \<Rightarrow> dict_item d k | _ \<Rightarrow> Inl TypeError)"

text \<open>\<^verbatim>\<open>v.get(k)\<close>: only a dict has the method.\<close>

definition py_get :: "pyval \<Rightarrow> string \<Rightarrow> error + pyval" where
  "py_get v k = (case v of PyDict d \<Rightarrow> Inr (dict_get d k) | _ \<Rightarrow> Inl AttributeError)"

text \<open>\<^verbatim>\<open>v[0]\<close>.\<close>

definition py_first :: "pyval \<Rightarrow> error + pyval" where
  "py_first v =
     (case v of
        PyList xs \<Rightarrow> (case xs of [] \<Rightarrow> Inl IndexError | x # _ \<Rightarrow> Inr x)
      | PyStr s \<Rightarrow> (case s of [] \<Rightarrow> Inl IndexError | c # _ \<Rightarrow> Inr (PyStr [c]))
      | PyDict d \<Rightarrow> Inl (KeyError ''0'')
      | _ \<Rightarrow> Inl TypeError)"

section \<open>Schema types of values\<close>

text \<open>\<^verbatim>\<open>isinstance\<close>: in Python \<^verbatim>\<open>bool\<close> is a subclass of \<^verbatim>\<open>int\<close>.\<close>

definition isinstance_int :: "pyval \<Rightarrow> bool" where
  "isinstance_int v = (case v of PyInt i \<Rightarrow> True | PyBool b \<Rightarrow> True | _ \<Rightarrow> False)"

definition isinstance_float :: "pyval \<Rightarrow> bool" where
  "isinstance_float v = (case v of PyFloat m e \<Rightarrow> True | _ \<Rightarrow> False)"

definition isinstance_bool :: "pyval \<Rightarrow> bool" where
  "isinstance_bool v = (case v of PyBool b \<Rightarrow> True | _ \<Rightarrow> False)"

text \<open>\<^verbatim>\<open>_get_weaviate_type_of_value\<close> (lines 377-406).\<close>

definition get_weaviate_type_of_value :: "collaborators \<Rightarrow> pyval \<Rightarrow> error + string" where
  "get_weaviate_type_of_value E val =
     and_then
       (case val of
          PyList xs \<Rightarrow> (case xs of [] \<Rightarrow> Inl IndexError | x # _ \<Rightarrow> Inr (True, x))
        | _ \<Rightarrow> Inr (False, val))
       (\<lambda>(list_of_values, v).
          let data_type =
                (case v of
                   PyStr s \<Rightarrow> (case convert_date_to_rfc3339 E s of
                                 Some r \<Rightarrow> ''date''
                               | None \<Rightarrow> ''string'')
                 | _ \<Rightarrow> if isinstance_int v then ''int''
                        else if isinstance_float v then ''number''
                        else if isinstance_bool v then ''boolean''
                        else '''')
          in Inr (if list_of_values then data_type @ ''[]'' else data_type))"

section \<open>Results of the backend as documents\<close>

text \<open>
  \<^verbatim>\<open>Document\<close> is defined in \<^verbatim>\<open>haystack.schema\<close>, outside the module. A document
  is modelled by the dict that \<^verbatim>\<open>_convert_weaviate_result_to_document\<close> hands to
  \<^verbatim>\<open>Document.from_dict\<close>, which stores these six entries.
\<close>

record document =
  doc_id :: pyval
  content :: pyval
  content_type :: pyval
  meta :: pydict
  score :: pyval
  embedding :: pyval

text \<open>
  The three reads from the \<^verbatim>\<open>_additional\<close> value (lines 246-251):
  \<^verbatim>\<open>if k in add: x = add[k]\<close>.
\<close>

definition read_additional :: "pyval \<Rightarrow> string \<Rightarrow> pyval \<Rightarrow> error + pyval" where
  "read_additional add k dflt =
     and_then (py_contains k add) (\<lambda>b. if b then py_getitem add k else Inr dflt)"

text \<open>
  \<^verbatim>\<open>_convert_weaviate_result_to_document\<close> (lines 218-270). A truthy
  \<^verbatim>\<open>properties\<close> value that is not a dict has no \<^verbatim>\<open>get\<close> method. The conversion
  of the embedding to a numpy array (lines 257-258) keeps its elements and is
  the identity here, so \<open>return_emb\<close> does not show in the result.
\<close>

definition convert_weaviate_result_to_document ::
  "collaborators \<Rightarrow> store \<Rightarrow> pydict \<Rightarrow> bool \<Rightarrow> error + document" where
  "convert_weaviate_result_to_document E self result return_emb =
     (let ident = dict_get result ''id'';
          emb = dict_get result ''vector'';
          p = dict_get result ''properties''
      in and_then
           (if \<not> truthy p then Inr result
            else (case p of PyDict d \<Rightarrow> Inr d | _ \<Rightarrow> Inl AttributeError))
           (\<lambda>props.
              and_then
                (if dict_get props (content_field self) \<noteq> PyNone
                 then (case json_loads E (py_str E (dict_get props (content_field self))) of
                         None \<Rightarrow> Inl JSONDecodeError
                       | Some c \<Rightarrow> Inr c)
                 else Inr (PyStr ''''))
                (\<lambda>cont.
                   let ctype = (if dict_get props ''content_type'' \<noteq> PyNone
                                then PyStr (py_str E (dict_get props ''content_type''))
                                else PyNone);
                       props1 = (if dict_get props ''content_type'' \<noteq> PyNone
                                 then AList.delete ''content_type'' props
                                 else props)
                   in and_then
                        (if has_key ''_additional'' props1
                         then (let add = dict_get props1 ''_additional''
                               in and_then (read_additional add ''certainty'' PyNone)
                                    (\<lambda>sc. and_then (read_additional add ''id'' ident)
                                       (\<lambda>i. and_then (read_additional add ''vector'' emb)
                                          (\<lambda>e. Inr (sc, i, e,
                                                   AList.delete ''_additional'' props1)))))
                         else Inr (PyNone, ident, emb, props1))
                        (\<lambda>(sc, i, e, props2).
                           Inr \<lparr>doc_id = i, content = cont, content_type = ctype,
                                meta = filter (\<lambda>(k, v). k \<noteq> content_field self
                                                       \<and> k \<noteq> embedding_field self) props2,
                                score = sc, embedding = e\<rparr>))))"


section \<open>The backend\<close>

text \<open>
  The Weaviate client is an external collaborator. It is modelled as an
  in-memory store: the schema (classes with their properties), the objects by
  uuid, and the log of the calls the module made, in order. The model fixes
  only what the module relies on: a class or object that does not exist is not
  found, a created property or object is there afterwards, and a schema change
  on a class that does not exist is refused.
\<close>

record wobject =
  obj_class :: string
  obj_props :: pydict
  obj_vector :: pyval

type_synonym batch_item = "string \<times> string \<times> pydict \<times> pyval"

datatype call =
    SchemaGet
  | SchemaContains "schema_class list"
  | SchemaCreate "schema_class list"
  | SchemaDeleteClass string
  | PropertyCreate string string string
  | GetById string
  | ObjectUpdate string string pydict
  | ObjectDelete string
  | BatchCreate "batch_item list"
  | Aggregate string "pyval option"
  | QueryGet string "string list" "pyval option" "nat option"
  | QueryRaw string

record backend =
  classes :: "schema_class list"
  objects :: "(string \<times> wobject) list"
  graphql_raw :: "string \<Rightarrow> pyval"
  calls :: "call list"

text \<open>
  A method runs on the backend and ends with a value or an exception; the
  effects it had before an exception stay.
\<close>

type_synonym 'a io = "backend \<Rightarrow> (error + 'a) \<times> backend"

definition ret :: "'a \<Rightarrow> 'a io" where
  "ret x = (\<lambda>b. (Inr x, b))"

definition raise :: "error \<Rightarrow> 'a io" where
  "raise e = (\<lambda>b. (Inl e, b))"

definition lift :: "error + 'a \<Rightarrow> 'a io" where
  "lift r = (\<lambda>b. (r, b))"

definition bindm :: "'a io \<Rightarrow> ('a \<Rightarrow> 'b io) \<Rightarrow> 'b io" where
  "bindm m f = (\<lambda>b. case m b of (Inl e, b') \<Rightarrow> (Inl e, b') | (Inr x, b') \<Rightarrow> f x b')"

definition log_call :: "call \<Rightarrow> unit io" where
  "log_call c = (\<lambda>b. (Inr (), b\<lparr>calls := calls b @ [c]\<rparr>))"

definition has_class :: "string \<Rightarrow> schema_class list \<Rightarrow> bool" where
  "has_class c cs = (c \<in> set (map fst cs))"

text \<open>\<^verbatim>\<open>schema.get()["classes"]\<close>.\<close>

definition be_schema_get :: "schema_class list io" where
  "be_schema_get = bindm (log_call SchemaGet) (\<lambda>u b. (Inr (classes b), b))"

text \<open>\<^verbatim>\<open>schema.contains(schema)\<close> and \<^verbatim>\<open>schema.create(schema)\<close>.\<close>

definition be_schema_contains :: "schema_class list \<Rightarrow> bool io" where
  "be_schema_contains sch =
     bindm (log_call (SchemaContains sch))
       (\<lambda>u b. (Inr (list_all (\<lambda>(c, ps). case map_of (classes b) c of
                                            None \<Rightarrow> False
                                          | Some qs \<Rightarrow> list_all (\<lambda>p. p \<in> set qs) ps) sch), b))"

definition be_schema_create :: "schema_class list \<Rightarrow> unit io" where
  "be_schema_create sch =
     bindm (log_call (SchemaCreate sch))
       (\<lambda>u b. (Inr (),
                b\<lparr>classes := classes b @ filter (\<lambda>(c, ps). \<not> has_class c (classes b)) sch\<rparr>))"

text \<open>\<^verbatim>\<open>schema.delete_class(index)\<close>: the class goes, and its objects with it.\<close>

definition be_schema_delete_class :: "string \<Rightarrow> unit io" where
  "be_schema_delete_class c =
     bindm (log_call (SchemaDeleteClass c))
       (\<lambda>u b. (Inr (),
                b\<lparr>classes := filter (\<lambda>(c', ps). c' \<noteq> c) (classes b),
                  objects := filter (\<lambda>(i, ob). obj_class ob \<noteq> c) (objects b)\<rparr>))"

text \<open>\<^verbatim>\<open>schema.property.create(index, property_dict)\<close>.\<close>

definition be_property_create :: "string \<Rightarrow> string \<Rightarrow> string \<Rightarrow> unit io" where
  "be_property_create c nm ty =
     bindm (log_call (PropertyCreate c nm ty))
       (\<lambda>u b. if has_class c (classes b)
               then (Inr (),
                     b\<lparr>classes := map (\<lambda>(c', ps). if c' = c then (c', ps @ [(nm, ty)])
                                                   else (c', ps)) (classes b)\<rparr>)
               else (Inl BackendError, b))"

text \<open>
  \<^verbatim>\<open>data_object.get_by_id(id, with_vector=True)\<close>: the object in the get shape,
  its fields under \<^verbatim>\<open>properties\<close>, or \<^verbatim>\<open>None\<close>.
\<close>

definition object_in_get_shape :: "backend \<Rightarrow> string \<Rightarrow> pyval" where
  "object_in_get_shape b uid =
     (case map_of (objects b) uid of
        None \<Rightarrow> PyNone
      | Some ob \<Rightarrow> PyDict [(''class'', PyStr (obj_class ob)),
                           (''id'', PyStr uid),
                           (''properties'', PyDict (obj_props ob)),
                           (''vector'', obj_vector ob)])"

definition be_get_by_id :: "string \<Rightarrow> pyval io" where
  "be_get_by_id uid =
     bindm (log_call (GetById uid)) (\<lambda>u b. (Inr (object_in_get_shape b uid), b))"

text \<open>\<^verbatim>\<open>data_object.delete(id)\<close>.\<close>

definition be_object_delete :: "string \<Rightarrow> unit io" where
  "be_object_delete uid =
     bindm (log_call (ObjectDelete uid))
       (\<lambda>u b. (Inr (), b\<lparr>objects := AList.delete uid (objects b)\<rparr>))"

text \<open>
  \<^verbatim>\<open>data_object.update(flds, class_name=c, uuid=id)\<close>: the given fields are
  merged into an object of that class; another class name or an unknown id
  is refused.
\<close>

definition be_object_update :: "string \<Rightarrow> string \<Rightarrow> pydict \<Rightarrow> unit io" where
  "be_object_update c uid flds =
     bindm (log_call (ObjectUpdate c uid flds))
       (\<lambda>u b. case map_of (objects b) uid of
                 None \<Rightarrow> (Inl BackendError, b)
               | Some ob \<Rightarrow>
                   if obj_class ob = c
                   then (Inr (),
                         b\<lparr>objects := AList.update uid
                              (ob\<lparr>obj_props := foldl (\<lambda>d (k, v). AList.update k v d)
                                                       (obj_props ob) flds\<rparr>)
                              (objects b)\<rparr>)
                   else (Inl BackendError, b))"

text \<open>\<^verbatim>\<open>batch.create(docs_batch)\<close>: every object is stored under its uuid.\<close>

definition be_batch_create :: "batch_item list \<Rightarrow> unit io" where
  "be_batch_create items =
     bindm (log_call (BatchCreate items))
       (\<lambda>u b. (Inr (),
                b\<lparr>objects := foldl (\<lambda>os (uid, c, flds, vec).
                                       AList.update uid
                                         \<lparr>obj_class = c, obj_props = flds, obj_vector = vec\<rparr> os)
                                     (objects b) items\<rparr>))"

text \<open>The objects of a class that a compiled filter selects.\<close>

definition select_objects ::
  "collaborators \<Rightarrow> string \<Rightarrow> pyval option \<Rightarrow> backend \<Rightarrow> (string \<times> wobject) list" where
  "select_objects E c flt b =
     filter (\<lambda>(uid, ob). obj_class ob = c \<and>
                          (case flt of None \<Rightarrow> True | Some f \<Rightarrow> where_matches E f (obj_props ob)))
       (objects b)"

text \<open>
  \<^verbatim>\<open>query.aggregate(index).with_fields("meta { count }")[.with_where(f)].do()\<close>.
  A query on a class that does not exist is answered with errors and no data.
\<close>

definition be_aggregate :: "collaborators \<Rightarrow> string \<Rightarrow> pyval option \<Rightarrow> pyval io" where
  "be_aggregate E c flt =
     bindm (log_call (Aggregate c flt))
       (\<lambda>u b. (Inr (if has_class c (classes b)
                      then PyDict [(''data'', PyDict [(''Aggregate'', PyDict [(c,
                             PyList [PyDict [(''meta'', PyDict [(''count'',
                               PyInt (int (length (select_objects E c flt b))))])]])])])]
                      else PyDict [(''errors'', PyList [PyStr ''no such class''])]), b))"

text \<open>
  \<^verbatim>\<open>query.get(class_name, properties)[.with_where(f)][.with_limit(k)].do()\<close>: the
  query shape, the requested properties at the root of each result, and the
  id and vector under \<^verbatim>\<open>_additional\<close>.
\<close>

definition additional_fields :: string where
  "additional_fields = ''_additional {id, certainty, vector}''"

definition query_shape :: "string list \<Rightarrow> string \<times> wobject \<Rightarrow> pyval" where
  "query_shape properties r =
     (case r of (uid, ob) \<Rightarrow>
        PyDict (map (\<lambda>p. if p = additional_fields
                          then (''_additional'', PyDict [(''id'', PyStr uid),
                                                          (''certainty'', PyNone),
                                                          (''vector'', obj_vector ob)])
                          else (p, dict_get (obj_props ob) p)) properties))"

definition be_query_get ::
  "collaborators \<Rightarrow> string \<Rightarrow> string list \<Rightarrow> pyval option \<Rightarrow> nat option \<Rightarrow> pyval io" where
  "be_query_get E c properties flt limit =
     bindm (log_call (QueryGet c properties flt limit))
       (\<lambda>u b. (Inr (if has_class c (classes b)
                      then (let found = select_objects E c flt b;
                                shown = (case limit of None \<Rightarrow> found | Some k \<Rightarrow> take k found)
                            in PyDict [(''data'', PyDict [(''Get'', PyDict [(c,
                                 PyList (map (query_shape properties) shown))])])])
                      else PyDict [(''errors'', PyList [PyStr ''no such class''])]), b))"

text \<open>\<^verbatim>\<open>query.raw(custom_query)\<close>.\<close>

definition be_query_raw :: "string \<Rightarrow> pyval io" where
  "be_query_raw q = bindm (log_call (QueryRaw q)) (\<lambda>u b. (Inr (graphql_raw b q), b))"

section \<open>The methods of the store\<close>

subsection \<open>Schema mirror\<close>

text \<open>
  \<^verbatim>\<open>_get_current_properties\<close> (lines 341-351) and \<^verbatim>\<open>_get_date_properties\<close>
  (lines 353-363): the loop over the classes keeps the list of the last class
  of that name.
\<close>

definition class_properties :: "string \<Rightarrow> schema_class list \<Rightarrow> string list" where
  "class_properties c cs = foldl (\<lambda>cur (c', ps). if c' = c then map fst ps else cur) [] cs"

definition class_date_properties :: "string \<Rightarrow> schema_class list \<Rightarrow> string list" where
  "class_date_properties c cs =
     foldl (\<lambda>cur (c', ps). if c' = c then map fst (filter (\<lambda>(n, ty). ty = ''date'') ps)
                              else cur) [] cs"

definition get_current_properties :: "store \<Rightarrow> string option \<Rightarrow> string list io" where
  "get_current_properties self idx =
     bindm (lift (resolve_index self idx))
       (\<lambda>index'. bindm be_schema_get (\<lambda>cs. ret (class_properties index' cs)))"

definition get_date_properties :: "store \<Rightarrow> string option \<Rightarrow> string list io" where
  "get_date_properties self idx =
     bindm (lift (resolve_index self idx))
       (\<lambda>index'. bindm be_schema_get (\<lambda>cs. ret (class_date_properties index' cs)))"

text \<open>\<^verbatim>\<open>_update_schema\<close> (lines 365-375).\<close>

definition update_schema ::
  "collaborators \<Rightarrow> store \<Rightarrow> string \<Rightarrow> pyval \<Rightarrow> string option \<Rightarrow> unit io" where
  "update_schema E self new_prop property_value idx =
     bindm (lift (resolve_index self idx))
       (\<lambda>index'. bindm (lift (get_weaviate_type_of_value E property_value))
          (\<lambda>data_type. be_property_create index' new_prop data_type))"

text \<open>\<^verbatim>\<open>_check_document\<close> (lines 408-412).\<close>

definition check_document :: "string list \<Rightarrow> pydict \<Rightarrow> string list" where
  "check_document cur_props doc = filter (\<lambda>item. item \<notin> set cur_props) (map fst doc)"

text \<open>\<^verbatim>\<open>_create_schema_and_index_if_not_exist\<close> (lines 184-216).\<close>

definition create_schema_and_index_if_not_exist :: "store \<Rightarrow> string option \<Rightarrow> unit io" where
  "create_schema_and_index_if_not_exist self idx =
     bindm (lift (resolve_index self idx))
       (\<lambda>index'.
          let schema = (case custom_schema self of
                          Some cs \<Rightarrow> cs
                        | None \<Rightarrow> [(index', [(name_field self, ''string''),
                                               (content_field self, ''text'')])])
          in bindm (be_schema_contains schema)
               (\<lambda>c. if \<not> c then be_schema_create schema else ret ()))"

subsection \<open>Fetching by id\<close>

text \<open>
  The \<^verbatim>\<open>headers\<close> argument: \<^verbatim>\<open>None\<close> and the empty dict are falsy, anything
  else raises.
\<close>

definition headers_given :: "(string \<times> string) list option \<Rightarrow> bool" where
  "headers_given headers = (case headers of None \<Rightarrow> False | Some h \<Rightarrow> h \<noteq> [])"

definition no_headers_support :: error where
  "no_headers_support = NotImplementedError ''WeaviateDocumentStore does not support headers.''"

text \<open>A result handed to the converter has to be a dict: it calls \<^verbatim>\<open>result.get\<close>.\<close>

definition convert_result ::
  "collaborators \<Rightarrow> store \<Rightarrow> pyval \<Rightarrow> bool \<Rightarrow> error + document" where
  "convert_result E self r return_emb =
     (case r of
        PyDict d \<Rightarrow> convert_weaviate_result_to_document E self d return_emb
      | _ \<Rightarrow> Inl AttributeError)"

text \<open>\<^verbatim>\<open>get_document_by_id\<close> (lines 275-298).\<close>

definition get_document_by_id ::
  "collaborators \<Rightarrow> store \<Rightarrow> string \<Rightarrow> string option \<Rightarrow> (string \<times> string) list option
     \<Rightarrow> document option io" where
  "get_document_by_id E self ident idx headers =
     (if headers_given headers then raise no_headers_support
      else bindm (lift (resolve_index self idx))
        (\<lambda>index'. bindm (lift (sanitize_id (sha256 E) self ident (Some index')))
           (\<lambda>uid. bindm (be_get_by_id uid)
              (\<lambda>result. if truthy result
                         then bindm (lift (convert_result E self result True))
                                (\<lambda>d. ret (Some d))
                         else ret None))))"

text \<open>
  \<^verbatim>\<open>get_documents_by_id\<close> (lines 300-322): the loop of lines 316-321 with the
  list \<open>documents\<close> it appends to.
\<close>

fun get_documents_loop ::
  "collaborators \<Rightarrow> store \<Rightarrow> string \<Rightarrow> document list \<Rightarrow> string list \<Rightarrow> document list io" where
  "get_documents_loop E self index' documents [] = ret documents"
| "get_documents_loop E self index' documents (ident # ids) =
     bindm (lift (sanitize_id (sha256 E) self ident (Some index')))
       (\<lambda>uid. bindm (be_get_by_id uid)
          (\<lambda>result. if truthy result
                     then bindm (lift (convert_result E self result True))
                            (\<lambda>d. get_documents_loop E self index' (documents @ [d]) ids)
                     else get_documents_loop E self index' documents ids))"

definition get_documents_by_id ::
  "collaborators \<Rightarrow> store \<Rightarrow> string list \<Rightarrow> string option \<Rightarrow> (string \<times> string) list option
     \<Rightarrow> document list io" where
  "get_documents_by_id E self ids idx headers =
     (if headers_given headers then raise no_headers_support
      else bindm (lift (resolve_index self idx))
             (\<lambda>index'. get_documents_loop E self index' [] ids))"

subsection \<open>Counting\<close>

text \<open>\<^verbatim>\<open>if filters:\<close> for an optional dict.\<close>

definition filters_given :: "pydict option \<Rightarrow> bool" where
  "filters_given filters = (case filters of None \<Rightarrow> False | Some f \<Rightarrow> f \<noteq> [])"

definition compile_filters :: "collaborators \<Rightarrow> pydict option \<Rightarrow> error + pyval" where
  "compile_filters E filters =
     (case filters of
        None \<Rightarrow> Inl AttributeError
      | Some f \<Rightarrow> (case convert_to_weaviate E f of None \<Rightarrow> Inl ValueError | Some w \<Rightarrow> Inr w))"

text \<open>Lines 599-601: the count is read out of the aggregate result.\<close>

definition read_count :: "string \<Rightarrow> pyval \<Rightarrow> error + pyval" where
  "read_count index' result =
     and_then (py_contains ''data'' result)
       (\<lambda>b1. if \<not> b1 then Inr (PyInt 0)
              else and_then (py_get result ''data'')
                (\<lambda>data. and_then (py_contains ''Aggregate'' data)
                   (\<lambda>b2. if \<not> b2 then Inr (PyInt 0)
                          else and_then (py_get data ''Aggregate'')
                            (\<lambda>agg. and_then (py_get agg index')
                               (\<lambda>l. and_then (py_first l)
                                  (\<lambda>x. and_then (py_getitem x ''meta'')
                                     (\<lambda>m. py_getitem m ''count'')))))))"

text \<open>\<^verbatim>\<open>get_document_count\<close> (lines 573-603).\<close>

definition get_document_count ::
  "collaborators \<Rightarrow> store \<Rightarrow> pydict option \<Rightarrow> string option \<Rightarrow> bool
     \<Rightarrow> (string \<times> string) list option \<Rightarrow> pyval io" where
  "get_document_count E self filters idx only_documents_without_embedding headers =
     (if headers_given headers then raise no_headers_support
      else if only_documents_without_embedding then ret (PyInt 0)
      else bindm (lift (resolve_index self idx))
        (\<lambda>index'.
           bindm (if filters_given filters
                  then bindm (lift (compile_filters E filters))
                         (\<lambda>filter_dict. be_aggregate E index' (Some filter_dict))
                  else be_aggregate E index' None)
             (\<lambda>result. lift (read_count index' result))))"

subsection \<open>Scanning and querying\<close>

text \<open>
  Lines 681-686 and 849-852: the list of results is read out of the answer of
  a get query; then the results are iterated.
\<close>

definition py_iterate :: "pyval \<Rightarrow> error + pyval list" where
  "py_iterate v =
     (case v of
        PyList xs \<Rightarrow> Inr xs
      | PyDict d \<Rightarrow> Inr (map (\<lambda>(k, x). PyStr k) d)
      | PyStr s \<Rightarrow> Inr (map (\<lambda>c. PyStr [c]) s)
      | _ \<Rightarrow> Inl TypeError)"

definition read_results :: "string \<Rightarrow> pyval \<Rightarrow> error + pyval list" where
  "read_results index' result =
     (if \<not> truthy result then Inr []
      else and_then (py_contains ''data'' result)
        (\<lambda>b1. if \<not> b1 then Inr []
               else and_then (py_get result ''data'')
                 (\<lambda>data. and_then (py_contains ''Get'' data)
                    (\<lambda>b2. if \<not> b2 then Inr []
                           else and_then (py_get data ''Get'')
                             (\<lambda>g. and_then (py_get g index')
                                (\<lambda>docs. if truthy docs then py_iterate docs else Inr []))))))"

fun convert_all ::
  "collaborators \<Rightarrow> store \<Rightarrow> bool \<Rightarrow> pyval list \<Rightarrow> error + document list" where
  "convert_all E self return_emb [] = Inr []"
| "convert_all E self return_emb (r # rs) =
     and_then (convert_result E self r return_emb)
       (\<lambda>d. and_then (convert_all E self return_emb rs) (\<lambda>ds. Inr (d # ds)))"

text \<open>\<^verbatim>\<open>_get_all_documents_in_index\<close> (lines 657-686).\<close>

definition get_all_documents_in_index ::
  "collaborators \<Rightarrow> store \<Rightarrow> string option \<Rightarrow> pydict option \<Rightarrow> pyval list io" where
  "get_all_documents_in_index E self idx filters =
     bindm (lift (resolve_index self idx))
       (\<lambda>index'. bindm (get_current_properties self (Some index'))
          (\<lambda>props.
             let properties = props @ [additional_fields]
             in bindm (if filters_given filters
                       then bindm (lift (compile_filters E filters))
                              (\<lambda>filter_dict.
                                 be_query_get E index' properties (Some filter_dict) None)
                       else be_query_get E index' properties None None)
                  (\<lambda>result. lift (read_results index' result))))"

text \<open>
  \<^verbatim>\<open>get_all_documents_generator\<close> (lines 688-743) and \<^verbatim>\<open>get_all_documents\<close>
  (lines 605-655), which runs the generator to its end.
\<close>

definition get_all_documents_generator ::
  "collaborators \<Rightarrow> store \<Rightarrow> string option \<Rightarrow> pydict option \<Rightarrow> bool option
     \<Rightarrow> (string \<times> string) list option \<Rightarrow> document list io" where
  "get_all_documents_generator E self idx filters return_emb headers =
     (if headers_given headers then raise no_headers_support
      else bindm (lift (resolve_index self idx))
        (\<lambda>index'.
           let re = (case return_emb of None \<Rightarrow> return_embedding self | Some r \<Rightarrow> r)
           in bindm (get_all_documents_in_index E self (Some index') filters)
                (\<lambda>results. lift (convert_all E self re results))))"

definition get_all_documents ::
  "collaborators \<Rightarrow> store \<Rightarrow> string option \<Rightarrow> pydict option \<Rightarrow> bool option
     \<Rightarrow> (string \<times> string) list option \<Rightarrow> document list io" where
  "get_all_documents E self idx filters return_emb headers =
     (if headers_given headers then raise no_headers_support
      else bindm (lift (resolve_index self idx))
        (\<lambda>index'. get_all_documents_generator E self (Some index') filters return_emb None))"

text \<open>\<^verbatim>\<open>query\<close> (lines 745-859). The query text itself is not used by the
  method. The message of the NotImplementedError of lines 843-847 is cut to
  its first sentence.\<close>

definition text_query_unsupported :: error where
  "text_query_unsupported =
     NotImplementedError ''Weaviate does not support inverted index text query.''"

definition query ::
  "collaborators \<Rightarrow> store \<Rightarrow> string option \<Rightarrow> pydict option \<Rightarrow> nat \<Rightarrow> string option
     \<Rightarrow> string option \<Rightarrow> document list io" where
  "query E self query_text filters top_k custom_query idx =
     bindm (lift (resolve_index self idx))
       (\<lambda>index'. bindm (get_current_properties self (Some index'))
          (\<lambda>props.
             let properties = props @ [additional_fields]
             in bindm (case (if custom_query = Some [] then None else custom_query) of
                         Some q \<Rightarrow> be_query_raw q
                       | None \<Rightarrow>
                           if filters_given filters
                           then bindm (lift (compile_filters E filters))
                                  (\<lambda>filter_dict. be_query_get E index' properties
                                                   (Some filter_dict) (Some top_k))
                           else raise text_query_unsupported)
                  (\<lambda>query_output. bindm (lift (read_results index' query_output))
                     (\<lambda>results. lift (convert_all E self True results)))))"

subsection \<open>Writing\<close>

text \<open>
  Lines 490-507 of \<^verbatim>\<open>write_documents\<close>: the dict of one document is flattened.
  The score is dropped, the entries of \<^verbatim>\<open>meta\<close> are moved to the top level,
  the id and the vector are taken out and the content is serialised. The
  normalisation of the vector (line 504) changes its elements in place and
  is not modelled. The result is the id, the vector and the flat dict.
\<close>

definition flatten_doc ::
  "collaborators \<Rightarrow> store \<Rightarrow> pydict \<Rightarrow> error + (string \<times> pyval \<times> pydict)" where
  "flatten_doc E self doc =
     (let d0 = AList.delete ''score'' doc
      in and_then
           (if has_key ''meta'' d0
            then (case dict_get d0 ''meta'' of
                    PyDict m \<Rightarrow>
                      Inr (AList.delete ''meta'' (foldl (\<lambda>d (k, v). AList.update k v d) d0 m))
                  | _ \<Rightarrow> Inl AttributeError)
            else Inr d0)
           (\<lambda>d1. and_then (dict_item d1 ''id'')
              (\<lambda>i. let d2 = AList.delete ''id'' d1
                    in and_then (dict_item d2 (embedding_field self))
                         (\<lambda>vec. let d3 = AList.delete (embedding_field self) d2
                                 in and_then (dict_item d3 ''content'')
                                      (\<lambda>c. Inr (py_str E i, vec,
                                                AList.update ''content''
                                                  (PyStr (json_dumps E c)) d3))))))"

text \<open>
  Lines 513-515: every missing property is added to the schema and appended
  to the snapshot \<open>current_properties\<close>. The value is read from the flat dict.
\<close>

fun add_missing_props ::
  "collaborators \<Rightarrow> store \<Rightarrow> string \<Rightarrow> pydict \<Rightarrow> string list \<Rightarrow> string list
     \<Rightarrow> string list io" where
  "add_missing_props E self index' doc current_properties [] = ret current_properties"
| "add_missing_props E self index' doc current_properties (property # missing) =
     bindm (lift (dict_item doc property))
       (\<lambda>v. bindm (update_schema E self property v (Some index'))
          (\<lambda>u. add_missing_props E self index' doc (current_properties @ [property]) missing))"

text \<open>
  Lines 519-520: every date property of the schema is looked up in the flat
  dict and replaced by its RFC 3339 form.
\<close>

fun coerce_dates :: "collaborators \<Rightarrow> string list \<Rightarrow> pydict \<Rightarrow> error + pydict" where
  "coerce_dates E [] doc = Inr doc"
| "coerce_dates E (date_field # date_fields) doc =
     and_then (dict_item doc date_field)
       (\<lambda>v. and_then (convert_date E v)
          (\<lambda>v'. coerce_dates E date_fields (AList.update date_field v' doc)))"

text \<open>
  The body of the loop over the documents of a batch (lines 490-522), for one
  document: the new snapshot and the object added to the batch request.
\<close>

definition write_document ::
  "collaborators \<Rightarrow> store \<Rightarrow> string \<Rightarrow> string list \<Rightarrow> pydict
     \<Rightarrow> (string list \<times> batch_item) io" where
  "write_document E self index' current_properties doc =
     bindm (lift (flatten_doc E self doc))
       (\<lambda>(doc_id, vec, d).
          bindm (add_missing_props E self index' d current_properties
                   (check_document current_properties d))
            (\<lambda>current_properties'.
               bindm (get_date_properties self (Some index'))
                 (\<lambda>date_fields.
                    bindm (lift (coerce_dates E date_fields d))
                      (\<lambda>d'. ret (current_properties', (doc_id, index', d', vec))))))"

text \<open>Lines 488-525: one batch is prepared and ingested.\<close>

fun write_batch ::
  "collaborators \<Rightarrow> store \<Rightarrow> string \<Rightarrow> string list \<Rightarrow> batch_item list \<Rightarrow> pydict list
     \<Rightarrow> string list io" where
  "write_batch E self index' current_properties docs_batch [] =
     bindm (be_batch_create docs_batch) (\<lambda>u. ret current_properties)"
| "write_batch E self index' current_properties docs_batch (doc # document_batch) =
     bindm (write_document E self index' current_properties doc)
       (\<lambda>(current_properties', item).
          write_batch E self index' current_properties' (docs_batch @ [item]) document_batch)"

text \<open>Lines 487-536: the batches in turn; the snapshot is carried along.\<close>

fun write_batches ::
  "collaborators \<Rightarrow> store \<Rightarrow> string \<Rightarrow> string list \<Rightarrow> pydict list list \<Rightarrow> string list io" where
  "write_batches E self index' current_properties [] = ret current_properties"
| "write_batches E self index' current_properties (document_batch # batched_documents) =
     bindm (write_batch E self index' current_properties [] document_batch)
       (\<lambda>current_properties'.
          write_batches E self index' current_properties' batched_documents)"

text \<open>
  \<^verbatim>\<open>write_documents\<close> (lines 414-537). The argument \<open>batched_documents\<close> is what
  the loop of line 487 iterates over: the batches that
  \<^verbatim>\<open>get_batches_from_generator\<close> cuts, each document as the dict that
  \<^verbatim>\<open>doc.to_dict(field_map)\<close> returns at line 490. This is after the ids were
  normalised (lines 463-464), the duplicates handled by the base class (lines
  466-468) and dummy embeddings supplied (lines 472-483); none of these steps
  reads or changes the schema. The assertion on the duplicate policy (lines
  445-448) and the logging of the errors a batch reports (lines 527-535) are
  left out. The method returns nothing; the model returns the final snapshot.
\<close>

definition write_documents ::
  "collaborators \<Rightarrow> store \<Rightarrow> pydict list list \<Rightarrow> string option
     \<Rightarrow> (string \<times> string) list option \<Rightarrow> string list io" where
  "write_documents E self batched_documents idx headers =
     (if headers_given headers then raise no_headers_support
      else bindm (lift (resolve_index self idx))
        (\<lambda>index'. bindm (create_schema_and_index_if_not_exist self (Some index'))
           (\<lambda>u. if concat batched_documents = [] then ret []
                 else bindm (get_current_properties self (Some index'))
                        (\<lambda>current_properties.
                           write_batches E self index' current_properties
                             batched_documents))))"

subsection \<open>Updating meta data\<close>

text \<open>Lines 558-560 of \<^verbatim>\<open>update_document_meta\<close>: only strings are converted.\<close>

fun coerce_meta_dates :: "collaborators \<Rightarrow> string list \<Rightarrow> pydict \<Rightarrow> error + pydict" where
  "coerce_meta_dates E [] m = Inr m"
| "coerce_meta_dates E (date_field # date_fields) m =
     and_then (dict_item m date_field)
       (\<lambda>v. case v of
               PyStr s \<Rightarrow> and_then (convert_date E (PyStr s))
                            (\<lambda>v'. coerce_meta_dates E date_fields (AList.update date_field v' m))
             | _ \<Rightarrow> coerce_meta_dates E date_fields m)"

text \<open>
  \<^verbatim>\<open>update_document_meta\<close> (lines 539-562). The index is \<^verbatim>\<open>self.index\<close> when
  the argument is falsy and the argument as it is otherwise.
\<close>

definition update_document_meta ::
  "collaborators \<Rightarrow> store \<Rightarrow> string \<Rightarrow> pydict \<Rightarrow> string option \<Rightarrow> unit io" where
  "update_document_meta E self ident m idx =
     (let index' = (case idx of None \<Rightarrow> index self
                              | Some s \<Rightarrow> if s = [] then index self else s)
      in bindm (get_current_properties self (Some index'))
           (\<lambda>current_properties.
              bindm (add_missing_props E self index' m current_properties
                       (check_document current_properties m))
                (\<lambda>current_properties'.
                   bindm (get_date_properties self (Some index'))
                     (\<lambda>date_fields.
                        bindm (lift (coerce_meta_dates E date_fields m))
                          (\<lambda>m'. be_object_update index' ident m')))))"

subsection \<open>Deleting\<close>

text \<open>
  \<^verbatim>\<open>Document.id\<close>: the given id as a string, or an id derived from the content
  when none was given.
\<close>

definition document_id :: "collaborators \<Rightarrow> document \<Rightarrow> string" where
  "document_id E d =
     (if truthy (doc_id d) then py_str E (doc_id d) else hash_id E (content d))"

fun delete_each :: "string list \<Rightarrow> unit io" where
  "delete_each [] = ret ()"
| "delete_each (uid # uids) = bindm (be_object_delete uid) (\<lambda>u. delete_each uids)"

text \<open>\<^verbatim>\<open>delete_documents\<close> (lines 1115-1174).\<close>

definition ids_given :: "string list option \<Rightarrow> bool" where
  "ids_given ids = (case ids of None \<Rightarrow> False | Some l \<Rightarrow> l \<noteq> [])"

definition delete_documents ::
  "collaborators \<Rightarrow> store \<Rightarrow> string option \<Rightarrow> string list option \<Rightarrow> pydict option
     \<Rightarrow> (string \<times> string) list option \<Rightarrow> unit io" where
  "delete_documents E self idx ids filters headers =
     (if headers_given headers then raise no_headers_support
      else bindm (lift (resolve_index self idx))
        (\<lambda>index'. bindm (create_schema_and_index_if_not_exist self (Some index'))
           (\<lambda>u. if \<not> filters_given filters \<and> \<not> ids_given ids
                 then bindm (be_schema_delete_class index')
                        (\<lambda>u. create_schema_and_index_if_not_exist self (Some index'))
                 else bindm (get_all_documents E self (Some index') filters None None)
                        (\<lambda>docs.
                           let docs_to_delete =
                                 (case ids of
                                    None \<Rightarrow> docs
                                  | Some l \<Rightarrow>
                                      if l \<noteq> []
                                      then filter (\<lambda>doc. document_id E doc \<in> set l) docs
                                      else docs)
                           in delete_each (map (document_id E) docs_to_delete)))))"

section \<open>Normalised ids\<close>

text \<open>The id under which a caller id is looked up and stored in an index:
  what \<^verbatim>\<open>_sanitize_id\<close> returns for it.\<close>

definition normalised :: "collaborators \<Rightarrow> store \<Rightarrow> string \<Rightarrow> string \<Rightarrow> string" where
  "normalised E self index' ident =
     (case sanitize_id (sha256 E) self ident (Some index') of Inr u \<Rightarrow> u | Inl e \<Rightarrow> ident)"

section \<open>A sample environment\<close>

text \<open>
  Concrete collaborators, a store and documents, for running the model on
  inputs. The sample hash is not SHA-256: it is sixteen times the sum of the
  character codes, which keeps the ids used below apart after the slice
  \<^verbatim>\<open>[::2]\<close>. The sample date conversion accepts the one date \<^verbatim>\<open>2020-01-01\<close>.
  The sample JSON functions quote and unquote a string.
\<close>

definition sample_hash :: "string \<Rightarrow> 256 word" where
  "sample_hash s = of_nat (16 * sum_list (map of_char s))"

definition sample_date :: "string \<Rightarrow> string option" where
  "sample_date s = (if s = ''2020-01-01'' then Some ''2020-01-01T00:00:00Z'' else None)"

definition sample_dumps :: "pyval \<Rightarrow> string" where
  "sample_dumps v = (case v of PyStr s \<Rightarrow> [CHR 0x22] @ s @ [CHR 0x22] | _ \<Rightarrow> ''null'')"

definition sample_loads :: "string \<Rightarrow> pyval option" where
  "sample_loads s =
     (if 2 \<le> length s \<and> hd s = CHR 0x22 \<and> last s = CHR 0x22
      then Some (PyStr (butlast (tl s)))
      else None)"

definition sample_env :: collaborators where
  "sample_env =
     \<lparr>sha256 = sample_hash,
      convert_date_to_rfc3339 = sample_date,
      repr = (\<lambda>v. ''<value>''),
      json_loads = sample_loads,
      json_dumps = sample_dumps,
      convert_to_weaviate = (\<lambda>f. Some (PyDict f)),
      where_matches = (\<lambda>f props. True),
      hash_id = (\<lambda>c. ''<hash>'')\<rparr>"

definition sample_store :: store where
  "sample_store =
     \<lparr>index = ''Document'', content_field = ''content'', name_field = ''name'',
      embedding_field = ''embedding'', return_embedding = False, custom_schema = None\<rparr>"

text \<open>
  A document as \<^verbatim>\<open>doc.to_dict(field_map)\<close> returns it at line 490, written under
  the caller id \<open>n\<close>: lines 463-464 have replaced the id by its normalised
  form.
\<close>

definition stored_id :: "string \<Rightarrow> string" where
  "stored_id n =
     (case sanitize_id sample_hash sample_store n None of Inr u \<Rightarrow> u | Inl e \<Rightarrow> n)"

definition sample_doc :: "string \<Rightarrow> pydict \<Rightarrow> pydict" where
  "sample_doc n m =
     [(''content'', PyStr n), (''content_type'', PyStr ''text''), (''id'', PyStr (stored_id n)),
      (''meta'', PyDict m), (''score'', PyNone), (''embedding'', PyList [PyFloat 1 0])]"

definition empty_backend :: backend where
  "empty_backend = \<lparr>classes = [], objects = [], graphql_raw = (\<lambda>q. PyNone), calls = []\<rparr>"

text \<open>The index after three documents were written under the caller ids
  \<^verbatim>\<open>doc-1\<close>, \<^verbatim>\<open>doc-2\<close>, \<^verbatim>\<open>doc-3\<close>, with an empty call log.\<close>

definition three_documents :: backend where
  "three_documents =
     (snd (write_documents sample_env sample_store
             [[sample_doc ''doc-1'' [], sample_doc ''doc-2'' [], sample_doc ''doc-3'' []]]
             None None empty_backend))\<lparr>calls := []\<rparr>"

text \<open>Two batches of documents with meta data, an author in each and a year
  in the second; and one batch of two documents of which only the first has
  a publication date.\<close>

definition sample_batches :: "pydict list list" where
  "sample_batches =
     [[sample_doc ''doc-1'' [(''author'', PyStr ''ann'')],
       sample_doc ''doc-2'' [(''author'', PyStr ''bob''), (''year'', PyInt 2020)]],
      [sample_doc ''doc-3'' [(''author'', PyStr ''cy'')]]]"

definition dated_batches :: "pydict list list" where
  "dated_batches =
     [[sample_doc ''doc-1'' [(''published'', PyStr ''2020-01-01'')],
       sample_doc ''doc-2'' []]]"

text \<open>An index whose schema has the date property \<^verbatim>\<open>published\<close>, and the
  snapshot of its properties.\<close>

definition dated_backend :: backend where
  "dated_backend =
     \<lparr>classes = [(''Document'', [(''name'', ''string''), (''content'', ''text''),
                                (''content_type'', ''string''), (''published'', ''date'')])],
      objects = [], graphql_raw = (\<lambda>q. PyNone), calls = []\<rparr>"

definition dated_snapshot :: "string list" where
  "dated_snapshot = [''name'', ''content'', ''content_type'', ''published'']"

text \<open>An index created under the name \<^verbatim>\<open>document_index\<close>, holding one document.\<close>

definition document_index_store :: store where
  "document_index_store = sample_store\<lparr>index := ''DocumentIndex''\<rparr>"

definition document_index_backend :: backend where
  "document_index_backend =
     \<lparr>classes = [(''DocumentIndex'', [(''name'', ''string''), (''content'', ''text'')])],
      objects = [(''00000000-0000-0000-0000-000000000001'',
                  \<lparr>obj_class = ''DocumentIndex'',
                   obj_props = [(''content'', PyStr (sample_dumps (PyStr ''text''))),
                                (''name'', PyStr ''a'')],
                   obj_vector = PyList [PyFloat 1 0]\<rparr>)],
      graphql_raw = (\<lambda>q. PyNone), calls = []\<rparr>"

text \<open>One stored document in the two shapes the backend answers with: the
  get shape of \<^verbatim>\<open>data_object.get_by_id\<close> and the query shape of
  \<^verbatim>\<open>query.get\<close>, here with a certainty.\<close>

definition sample_get_result :: pydict where
  "sample_get_result =
     [(''class'', PyStr ''Document''),
      (''id'', PyStr ''00000000-0000-0000-0000-000000000001''),
      (''properties'', PyDict [(''content'', PyStr (sample_dumps (PyStr ''hello''))),
                               (''name'', PyStr ''a'')]),
      (''vector'', PyList [PyFloat 1 0])]"


section \<open>Effects on the stored objects\<close>

text \<open>A method that leaves the stored objects as they are, whatever else it
  does to the backend.\<close>

definition keeps_objects :: "'a io \<Rightarrow> bool" where
  "keeps_objects m = (\<forall>b. objects (snd (m b)) = objects b)"

section \<open>Schema migrations in the call log\<close>

text \<open>The property names of the \<^verbatim>\<open>schema.property.create\<close> calls in a log, in
  order: the migrations that \<^verbatim>\<open>_update_schema\<close> issued.\<close>

definition migrated_names :: "call list \<Rightarrow> string list" where
  "migrated_names cs =
     concat (map (\<lambda>c. case c of PropertyCreate i nm ty \<Rightarrow> [nm] | _ \<Rightarrow> []) cs)"

text \<open>The property names a written document carries: the keys of its flat dict.\<close>

definition flat_keys :: "collaborators \<Rightarrow> store \<Rightarrow> pydict \<Rightarrow> string list" where
  "flat_keys E self doc =
     (case flatten_doc E self doc of Inr (i, vec, d) \<Rightarrow> map fst d | Inl e \<Rightarrow> [])"

definition written_fields :: "collaborators \<Rightarrow> store \<Rightarrow> pydict list \<Rightarrow> string set" where
  "written_fields E self docs = set (concat (map (flat_keys E self) docs))"

text \<open>The calls a run added to the log.\<close>

definition new_calls :: "backend \<Rightarrow> backend \<Rightarrow> call list" where
  "new_calls b b' = drop (length (calls b)) (calls b')"

text \<open>
  What a part of \<^verbatim>\<open>write_documents\<close> does to the schema, from the snapshot
  \<open>cur\<close> and the backend \<open>b\<close> to the outcome \<open>r\<close> and the backend \<open>b'\<close>, when \<open>K\<close>
  are the property names of the documents it handles: no name is migrated
  twice, every migrated name is one of \<open>K\<close> that the snapshot lacked, and when
  the part completes the new snapshot is the old one followed by the
  migrated names and holds all of \<open>K\<close>.
\<close>

definition migration_step ::
  "string set \<Rightarrow> string list \<Rightarrow> backend \<Rightarrow> error + string list \<Rightarrow> backend \<Rightarrow> bool" where
  "migration_step K cur b r b' =
     (\<exists>cs. calls b' = calls b @ cs
          \<and> distinct (migrated_names cs)
          \<and> set (migrated_names cs) \<subseteq> K - set cur
          \<and> (\<forall>cur'. r = Inr cur' \<longrightarrow> cur' = cur @ migrated_names cs \<and> K \<subseteq> set cur'))"

section \<open>Errors by kind\<close>

text \<open>A result that is not a NotImplementedError; used to tell the unsupported
  operations from every other failure.\<close>

definition other_error :: "error + 'a \<Rightarrow> bool" where
  "other_error r = (\<forall>m. r \<noteq> Inl (NotImplementedError m))"

section \<open>Properties of the index name\<close>

lemma sanitize_index_name_examples:
  "sanitize_index_name (Some ''document_index'') = Inr (Some ''DocumentIndex'')"
  "sanitize_index_name (Some ''DocumentIndex'') = Inr (Some ''DocumentIndex'')"
  "sanitize_index_name (Some ''document'') = Inr (Some ''Document'')"
  "sanitize_index_name (Some '''') = Inl IndexError"
  by (simp_all add: sanitize_index_name_def upper_char_def lower_char_def)

section \<open>Properties of the identifier normaliser\<close>

lemma split_sep_no_sep: "sep \<notin> set a \<Longrightarrow> split_sep sep a = [a]"
  by (induction a) auto

lemma split_sep_append:
  "sep \<notin> set a \<Longrightarrow> split_sep sep (a @ sep # b) = a # split_sep sep b"
  by (induction a) auto

lemma hyphen_not_hex: "list_all is_hex a \<Longrightarrow> CHR ''-'' \<notin> set a"
proof -
  have "\<not> is_hex CHR ''-''" by (simp add: is_hex_def)
  then show "list_all is_hex a \<Longrightarrow> CHR ''-'' \<notin> set a"
    unfolding list_all_iff by blast
qed

lemma uuid_groups_concat:
  assumes "list_all is_hex a" "list_all is_hex b" "list_all is_hex c"
    and "list_all is_hex d" "list_all is_hex e"
    and "length a = 8" "length b = 4" "length c = 4" "length d = 4" "length e = 12"
  shows "uuid_groups (a @ CHR ''-'' # b @ CHR ''-'' # c @ CHR ''-'' # d @ CHR ''-'' # e)"
  using assms by (simp add: uuid_groups_def split_sep_append split_sep_no_sep hyphen_not_hex)

lemma is_hex_lower: "is_hex c \<Longrightarrow> is_hex (lower_char c)"
proof -
  have "list_all (\<lambda>c. is_hex (lower_char c)) ''0123456789abcdefABCDEF''"
    by (simp add: is_hex_def lower_char_def)
  then show "is_hex c \<Longrightarrow> is_hex (lower_char c)"
    unfolding list_all_iff is_hex_def by blast
qed

lemma is_hex_hex_digit: "is_hex (hex_digit n)"
proof -
  have all: "list_all is_hex ''0123456789abcdef''"
    by (simp add: is_hex_def)
  have "n mod 16 < length ''0123456789abcdef''" by simp
  with all show ?thesis
    unfolding hex_digit_def list_all_length by blast
qed

lemma length_every_second: "length (every_second xs) = (length xs + 1) div 2"
  by (induction xs rule: every_second.induct) auto

lemma set_every_second: "set (every_second xs) \<subseteq> set xs"
  by (induction xs rule: every_second.induct) auto

lemma digest_slice:
  "length (every_second (hexdigest w)) = 32"
  "list_all is_hex (every_second (hexdigest w))"
proof -
  show "length (every_second (hexdigest w)) = 32"
    by (simp add: length_every_second hexdigest_def)
  have "list_all is_hex (hexdigest w)"
    by (simp add: hexdigest_def list_all_iff is_hex_hex_digit)
  then show "list_all is_hex (every_second (hexdigest w))"
    using set_every_second [of "hexdigest w"] unfolding list_all_iff by blast
qed

lemma canonical_uuid_split:
  assumes "canonical_uuid s"
  shows "s = take 8 s @ CHR ''-'' # take 4 (drop 9 s) @ CHR ''-'' # take 4 (drop 14 s)
               @ CHR ''-'' # take 4 (drop 19 s) @ CHR ''-'' # drop 24 s"
proof -
  from assms have len: "length s = 36"
    and h: "s ! 8 = CHR ''-''" "s ! 13 = CHR ''-''" "s ! 18 = CHR ''-''" "s ! 23 = CHR ''-''"
    by (simp_all add: canonical_uuid_def)
  have d8: "drop 8 s = CHR ''-'' # drop 9 s"
    using Cons_nth_drop_Suc [of 8 s] len h by simp
  have d13: "drop 13 s = CHR ''-'' # drop 14 s"
    using Cons_nth_drop_Suc [of 13 s] len h by simp
  have d18: "drop 18 s = CHR ''-'' # drop 19 s"
    using Cons_nth_drop_Suc [of 18 s] len h by simp
  have d23: "drop 23 s = CHR ''-'' # drop 24 s"
    using Cons_nth_drop_Suc [of 23 s] len h by simp
  have s9: "drop 9 s = take 4 (drop 9 s) @ drop 13 s"
    using append_take_drop_id [of 4 "drop 9 s"] by simp
  have s14: "drop 14 s = take 4 (drop 14 s) @ drop 18 s"
    using append_take_drop_id [of 4 "drop 14 s"] by simp
  have s19: "drop 19 s = take 4 (drop 19 s) @ drop 23 s"
    using append_take_drop_id [of 4 "drop 19 s"] by simp
  have "s = take 8 s @ drop 8 s" by simp
  also have "\<dots> = take 8 s @ CHR ''-'' # take 4 (drop 9 s) @ drop 13 s"
    using d8 s9 by simp
  also have "\<dots> = take 8 s @ CHR ''-'' # take 4 (drop 9 s) @ CHR ''-'' # take 4 (drop 14 s) @ drop 18 s"
    using d13 s14 by simp
  also have "\<dots> = take 8 s @ CHR ''-'' # take 4 (drop 9 s) @ CHR ''-'' # take 4 (drop 14 s)
               @ CHR ''-'' # take 4 (drop 19 s) @ drop 23 s"
    using d18 s19 by simp
  finally show ?thesis using d23 by simp
qed

lemma canonical_uuid_groups: "canonical_uuid s \<Longrightarrow> uuid_groups s"
proof -
  assume c: "canonical_uuid s"
  then have len: "length s = 36" by (simp add: canonical_uuid_def)
  have "uuid_groups (take 8 s @ CHR ''-'' # take 4 (drop 9 s) @ CHR ''-'' # take 4 (drop 14 s)
               @ CHR ''-'' # take 4 (drop 19 s) @ CHR ''-'' # drop 24 s)"
    using c len by (intro uuid_groups_concat) (simp_all add: canonical_uuid_def)
  with canonical_uuid_split [OF c] show ?thesis by simp
qed

lemma str_UUID_groups:
  assumes "length h = 32" "list_all is_hex h"
  shows "\<exists>r. str_UUID h = Inr r \<and> uuid_groups r"
proof -
  let ?l = "map lower_char h"
  have hex: "list_all is_hex ?l"
    using assms(2) by (simp add: list_all_iff is_hex_lower)
  have parts: "list_all is_hex (take 8 ?l)" "list_all is_hex (take 4 (drop 8 ?l))"
    "list_all is_hex (take 4 (drop 12 ?l))" "list_all is_hex (take 4 (drop 16 ?l))"
    "list_all is_hex (drop 20 ?l)"
    using hex unfolding list_all_iff
    by (blast dest: in_set_takeD in_set_dropD)+
  have "uuid_groups (take 8 ?l @ CHR ''-'' # take 4 (drop 8 ?l) @ CHR ''-'' # take 4 (drop 12 ?l)
          @ CHR ''-'' # take 4 (drop 16 ?l) @ CHR ''-'' # drop 20 ?l)"
    using parts assms(1) by (intro uuid_groups_concat) simp_all
  then show ?thesis using assms by (simp add: str_UUID_def Let_def)
qed

lemma sanitize_id_matches:
  assumes "sanitize_id f self s idx = Inr r"
  shows "UUID_PATTERN_match r"
proof (cases "UUID_PATTERN_match s")
  case True
  with assms show ?thesis
    by (auto simp: sanitize_id_def and_then_def split: sum.splits)
next
  case False
  from assms obtain i where "str_UUID (every_second (hexdigest (f (s @ i)))) = Inr r"
    using False by (auto simp: sanitize_id_def and_then_def split: sum.splits)
  with str_UUID_groups [OF digest_slice, of "f (s @ i)"] show ?thesis
    by (auto simp: UUID_PATTERN_match_def)
qed

lemma sanitize_id_total:
  assumes "resolve_index self idx = Inr i"
  shows "\<exists>r. sanitize_id f self s idx = Inr r"
  using assms str_UUID_groups [OF digest_slice, of "f (s @ i)"]
  by (auto simp: sanitize_id_def and_then_def)

lemma sanitize_id_canonical_unchanged:
  assumes "canonical_uuid s" "resolve_index self idx = Inr i"
  shows "sanitize_id f self s idx = Inr s"
  using assms canonical_uuid_groups [of s]
  by (simp add: sanitize_id_def and_then_def UUID_PATTERN_match_def)

lemma sanitize_id_idempotent:
  assumes "sanitize_id f self s idx = Inr r"
  shows "sanitize_id f self r idx = Inr r"
proof -
  from assms obtain i where "resolve_index self idx = Inr i"
    by (auto simp: sanitize_id_def and_then_def split: sum.splits)
  with sanitize_id_matches [OF assms] show ?thesis
    by (simp add: sanitize_id_def and_then_def)
qed

lemma resolve_index_Document: "resolve_index self (Some ''Document'') = Inr ''Document''"
  by (simp add: resolve_index_def sanitize_index_name_def and_then_def upper_char_def)

text \<open>
  Claim C5. An id in the canonical UUID grammar is returned unchanged
  (\<open>sanitize_id_canonical_unchanged\<close>), and normalising twice gives what
  normalising once gives (\<open>sanitize_id_idempotent\<close>), because every returned id
  is accepted by \<^verbatim>\<open>UUID_PATTERN.match\<close> (\<open>sanitize_id_matches\<close>). The returned id is
  not always in the canonical grammar, though: the pattern ends in \<^verbatim>\<open>$\<close>, which
  also matches before a final newline, so a UUID followed by a newline is
  taken for a UUID and returned with its newline, 37 characters long.
\<close>

theorem sanitize_id_trailing_newline:
  "sanitize_id f self (''00000000-0000-0000-0000-000000000000'' @ [CHR 0x0A]) (Some ''Document'')
     = Inr (''00000000-0000-0000-0000-000000000000'' @ [CHR 0x0A])
   \<and> \<not> canonical_uuid (''00000000-0000-0000-0000-000000000000'' @ [CHR 0x0A])"
proof -
  have m: "UUID_PATTERN_match (''00000000-0000-0000-0000-000000000000'' @ [CHR 0x0A])"
    by (simp add: UUID_PATTERN_match_def uuid_groups_def is_hex_def)
  have c: "\<not> canonical_uuid (''00000000-0000-0000-0000-000000000000'' @ [CHR 0x0A])"
    by (simp add: canonical_uuid_def)
  show ?thesis
    using m c resolve_index_Document [of self]
    by (simp add: sanitize_id_def and_then_def)
qed

section \<open>Properties of the schema type inference\<close>

text \<open>
  A boolean never reaches the \<^verbatim>\<open>isinstance(value, bool)\<close> branch: the
  \<^verbatim>\<open>isinstance(value, int)\<close> test before it already holds for it.
\<close>

lemma get_weaviate_type_of_value_bool:
  "get_weaviate_type_of_value E (PyBool b) = Inr ''int''"
  by (simp add: get_weaviate_type_of_value_def and_then_def isinstance_int_def)

text \<open>
  Claim C2, as the specification states it, fails on the code: a string that
  is not a date is given the type \<^verbatim>\<open>string\<close>, not \<^verbatim>\<open>text\<close>, and the boolean
  \<^verbatim>\<open>True\<close> is given the type \<^verbatim>\<open>int\<close>.
\<close>

theorem get_weaviate_type_of_value_counterexample:
  "convert_date_to_rfc3339 sample_env ''hello'' = None
   \<and> get_weaviate_type_of_value sample_env (PyStr ''hello'') = Inr ''string''
   \<and> get_weaviate_type_of_value sample_env (PyStr ''hello'') \<noteq> Inr ''text''
   \<and> get_weaviate_type_of_value sample_env (PyBool True) = Inr ''int''
   \<and> get_weaviate_type_of_value sample_env (PyBool True) \<noteq> Inr ''boolean''"
  by (simp add: get_weaviate_type_of_value_def and_then_def isinstance_int_def
      sample_env_def sample_date_def)

text \<open>
  Claim C2, amended. The type is inferred from the shape of the value: a
  string that the date conversion accepts is a \<^verbatim>\<open>date\<close>, any other string is a
  \<^verbatim>\<open>string\<close>, an integer is an \<^verbatim>\<open>int\<close>, a floating-point value is a \<^verbatim>\<open>number\<close>;
  a non-empty list has the type of its first element, marked with \<^verbatim>\<open>[]\<close>, and
  the empty list raises IndexError.
\<close>

theorem get_weaviate_type_of_value_by_shape:
  "get_weaviate_type_of_value E (PyStr s) =
     Inr (case convert_date_to_rfc3339 E s of Some r \<Rightarrow> ''date'' | None \<Rightarrow> ''string'')
   \<and> get_weaviate_type_of_value E (PyInt i) = Inr ''int''
   \<and> get_weaviate_type_of_value E (PyFloat m e) = Inr ''number''
   \<and> get_weaviate_type_of_value E (PyList (PyStr s # xs)) =
     Inr (case convert_date_to_rfc3339 E s of Some r \<Rightarrow> ''date[]'' | None \<Rightarrow> ''string[]'')
   \<and> get_weaviate_type_of_value E (PyList (PyInt i # xs)) = Inr ''int[]''
   \<and> get_weaviate_type_of_value E (PyList (PyFloat m e # xs)) = Inr ''number[]''
   \<and> get_weaviate_type_of_value E (PyList []) = Inl IndexError"
  by (simp add: get_weaviate_type_of_value_def and_then_def isinstance_int_def
      isinstance_float_def split: option.split)

section \<open>Properties of counting and querying\<close>

lemmas io_defs = bindm_def ret_def raise_def lift_def log_call_def and_then_def

lemma get_current_properties_run:
  "get_current_properties self idx b =
     (case resolve_index self idx of
        Inl e \<Rightarrow> (Inl e, b)
      | Inr i \<Rightarrow> (Inr (class_properties i (classes b)), b\<lparr>calls := calls b @ [SchemaGet]\<rparr>))"
  by (simp add: get_current_properties_def be_schema_get_def io_defs split: sum.split)

lemma sanitize_index_name_nonempty:
  "s \<noteq> [] \<Longrightarrow> \<exists>r. sanitize_index_name (Some s) = Inr r"
  by (cases s) (simp_all add: sanitize_index_name_def)

lemma resolve_index_ok:
  assumes "idx \<noteq> Some []"
  shows "\<exists>i. resolve_index self idx = Inr i \<and> (index self \<noteq> [] \<longrightarrow> i \<noteq> [])"
proof (cases idx)
  case None
  then show ?thesis by (simp add: resolve_index_def sanitize_index_name_def and_then_def)
next
  case (Some s)
  with assms have "s \<noteq> []" by simp
  then obtain r where "sanitize_index_name (Some s) = Inr r"
    using sanitize_index_name_nonempty by blast
  with Some show ?thesis
    by (auto simp: resolve_index_def and_then_def split: option.split)
qed

lemma resolve_index_twice:
  assumes "index self \<noteq> []" "idx \<noteq> Some []"
  shows "\<exists>i j. resolve_index self idx = Inr i \<and> resolve_index self (Some i) = Inr j"
proof -
  from resolve_index_ok [OF assms(2), of self] assms(1)
  obtain i where i: "resolve_index self idx = Inr i" "i \<noteq> []" by blast
  then have "Some i \<noteq> Some []" by simp
  from resolve_index_ok [OF this, of self] i show ?thesis by blast
qed

text \<open>
  Claim C7. With \<^verbatim>\<open>only_documents_without_embedding=True\<close> and no headers,
  \<^verbatim>\<open>get_document_count\<close> returns 0 at once, for every filters and index
  argument: the backend is left as it was, no call is logged, and the filters
  are not compiled (the result does not depend on the collaborators).
\<close>

theorem get_document_count_without_embedding:
  "get_document_count E self filters idx True None b = (Inr (PyInt 0), b)
   \<and> get_document_count E self filters idx True (Some []) b = (Inr (PyInt 0), b)"
  by (simp add: get_document_count_def headers_given_def ret_def)

lemma other_error_simps [simp]:
  "other_error (Inr x)" "other_error (Inl IndexError)" "other_error (Inl (KeyError k))"
  "other_error (Inl TypeError)" "other_error (Inl AttributeError)" "other_error (Inl ValueError)"
  "other_error (Inl JSONDecodeError)" "other_error (Inl BackendError)"
  by (simp_all add: other_error_def)

lemma other_error_and_then:
  "other_error m \<Longrightarrow> (\<And>x. other_error (f x)) \<Longrightarrow> other_error (and_then m f)"
  by (cases m) (auto simp: and_then_def other_error_def)

lemma other_error_dict_item [simp]: "other_error (dict_item d k)"
  by (simp add: dict_item_def split: option.split)

lemma other_error_py_contains [simp]: "other_error (py_contains k v)"
  by (cases v) (simp_all add: py_contains_def)

lemma other_error_py_getitem [simp]: "other_error (py_getitem v k)"
  by (cases v) (simp_all add: py_getitem_def)

lemma other_error_py_get [simp]: "other_error (py_get v k)"
  by (cases v) (simp_all add: py_get_def)

lemma other_error_py_iterate [simp]: "other_error (py_iterate v)"
  by (cases v) (simp_all add: py_iterate_def)

lemma other_error_read_additional [simp]: "other_error (read_additional a k d)"
  unfolding read_additional_def by (intro other_error_and_then) simp_all

lemma other_error_convert [simp]:
  "other_error (convert_weaviate_result_to_document E self d re)"
  unfolding convert_weaviate_result_to_document_def Let_def
  by (auto intro!: other_error_and_then split: pyval.split option.split prod.split)

lemma other_error_convert_result [simp]: "other_error (convert_result E self r re)"
  by (cases r) (simp_all add: convert_result_def)

lemma other_error_convert_all [simp]: "other_error (convert_all E self re rs)"
  by (induction rs) (auto intro!: other_error_and_then)

lemma other_error_read_results [simp]: "other_error (read_results i r)"
  unfolding read_results_def
  by (auto intro!: other_error_and_then)

lemma other_error_compile_filters [simp]: "other_error (compile_filters E f)"
  by (simp add: compile_filters_def split: option.split)

lemma other_error_resolve_index [simp]: "other_error (resolve_index self idx)"
  by (auto simp: resolve_index_def sanitize_index_name_def and_then_def
      split: option.split list.split)

lemma other_error_bindm:
  "other_error (fst (m b)) \<Longrightarrow> (\<And>x b'. other_error (fst (f x b')))
     \<Longrightarrow> other_error (fst (bindm m f b))"
  by (auto simp: bindm_def other_error_def split: prod.split sum.split)

lemma other_error_lift: "other_error r \<Longrightarrow> other_error (fst (lift r b))"
  by (simp add: lift_def)

lemma other_error_backend [simp]:
  "other_error (fst (be_query_raw q b))"
  "other_error (fst (be_query_get E c ps flt lim b))"
  "other_error (fst (get_current_properties self idx b))"
proof -
  show "other_error (fst (be_query_raw q b))"
    by (simp add: be_query_raw_def io_defs)
  show "other_error (fst (be_query_get E c ps flt lim b))"
    by (simp add: be_query_get_def io_defs)
  have "other_error (resolve_index self idx)" by simp
  then show "other_error (fst (get_current_properties self idx b))"
    by (cases "resolve_index self idx") (simp_all add: get_current_properties_run other_error_def)
qed

text \<open>
  Claim C8. For a store with an index name and every index argument but the
  empty string (which raises IndexError in \<^verbatim>\<open>_sanitize_index_name\<close>), a query
  with neither filters nor a custom query raises the NotImplementedError of
  lines 843-847. Before that the method has read the schema (line 829); it
  has issued no query. With filters (a non-empty dict) or a custom query (a
  non-empty string) the method never ends in a NotImplementedError.
\<close>

theorem query_text_only_unsupported:
  assumes "index self \<noteq> []" "idx \<noteq> Some []"
  shows "query E self q None k None idx b
           = (Inl text_query_unsupported, b\<lparr>calls := calls b @ [SchemaGet]\<rparr>)
         \<and> (filters_given filters \<or> (\<exists>c cs. custom_query = Some (c # cs)) \<longrightarrow>
              (\<forall>m. fst (query E self q filters k custom_query idx b)
                      \<noteq> Inl (NotImplementedError m)))"
proof -
  from resolve_index_twice [OF assms] obtain i j
    where r: "resolve_index self idx = Inr i" "resolve_index self (Some i) = Inr j" by blast
  have one: "query E self q None k None idx b
           = (Inl text_query_unsupported, b\<lparr>calls := calls b @ [SchemaGet]\<rparr>)"
    using r by (simp add: query_def get_current_properties_run filters_given_def io_defs)
  have two: "other_error (fst (query E self q filters k custom_query idx b))"
    if given: "filters_given filters \<or> (\<exists>c cs. custom_query = Some (c # cs))"
  proof -
    have branch: "other_error (fst ((case (if custom_query = Some [] then None else custom_query) of
                         Some q \<Rightarrow> be_query_raw q
                       | None \<Rightarrow>
                           if filters_given filters
                           then bindm (lift (compile_filters E filters))
                                  (\<lambda>filter_dict. be_query_get E i' ps
                                                   (Some filter_dict) (Some k))
                           else raise text_query_unsupported) b'))" for i' ps b'
      using given
      by (auto split: option.split intro!: other_error_bindm other_error_lift)
    show ?thesis
      unfolding query_def Let_def
      by (intro other_error_bindm other_error_lift branch) simp_all
  qed
  from one two show ?thesis unfolding other_error_def by blast
qed

theorem query_text_only_unsupported_witness:
  "index sample_store \<noteq> [] \<and> (None :: string option) \<noteq> Some []
   \<and> query sample_env sample_store (Some ''what?'') None 10 None None empty_backend
       = (Inl text_query_unsupported, empty_backend\<lparr>calls := calls empty_backend @ [SchemaGet]\<rparr>)
   \<and> filters_given (Some [(''name'', PyStr ''a'')])
   \<and> (\<forall>m. fst (query sample_env sample_store (Some ''what?'') (Some [(''name'', PyStr ''a'')])
                   10 None None empty_backend) \<noteq> Inl (NotImplementedError m))"
  using query_text_only_unsupported [where self = sample_store and idx = None and E = sample_env
      and q = "Some ''what?''" and k = 10 and b = empty_backend
      and filters = "Some [(''name'', PyStr ''a'')]" and custom_query = None]
  by (simp add: sample_store_def filters_given_def)

section \<open>Properties of the index argument\<close>

lemma resolve_document_index:
  "resolve_index self (Some ''document_index'') = Inr ''DocumentIndex''"
  "resolve_index self (Some ''DocumentIndex'') = Inr ''DocumentIndex''"
  by (simp_all add: resolve_index_def sanitize_index_name_def and_then_def upper_char_def
      lower_char_def)

text \<open>
  Claim C9. \<^verbatim>\<open>_sanitize_index_name\<close> rewrites \<^verbatim>\<open>document_index\<close> to
  \<^verbatim>\<open>DocumentIndex\<close>, and the methods that start with
  \<^verbatim>\<open>index = self._sanitize_index_name(index) or self.index\<close> send the rewritten
  name: \<^verbatim>\<open>get_document_count\<close> aggregates over \<^verbatim>\<open>DocumentIndex\<close>. The method
  \<^verbatim>\<open>update_document_meta\<close> does not start so (lines 544-545): its two schema
  reads resolve the name, and the object update is sent with the class name
  as the caller gave it.
\<close>

theorem update_document_meta_raw_index_name:
  "calls (snd (update_document_meta sample_env document_index_store
                 ''00000000-0000-0000-0000-000000000001'' [(''name'', PyStr ''b'')]
                 (Some ''document_index'') document_index_backend))
     = [SchemaGet, SchemaGet,
        ObjectUpdate ''document_index'' ''00000000-0000-0000-0000-000000000001''
          [(''name'', PyStr ''b'')]]
   \<and> calls (snd (get_document_count sample_env document_index_store None
                    (Some ''document_index'') False None document_index_backend))
     = [Aggregate ''DocumentIndex'' None]"
  by (simp add: update_document_meta_def get_document_count_def get_current_properties_run
      get_date_properties_def be_schema_get_def be_object_update_def be_aggregate_def
      resolve_document_index class_properties_def class_date_properties_def check_document_def
      document_index_backend_def document_index_store_def sample_store_def headers_given_def
      filters_given_def read_count_def io_defs Let_def)

section \<open>Properties of the result codec\<close>




lemma has_key_map_of: "has_key k d \<longleftrightarrow> map_of d k \<noteq> None"
  by (simp add: has_key_def map_of_eq_None_iff)








text \<open>
  The \<^verbatim>\<open>_additional\<close> value is looked up in the dict the fields are read from.
  In a result with non-empty \<^verbatim>\<open>properties\<close>, an \<^verbatim>\<open>_additional\<close> entry at the
  root is not consulted.
\<close>

lemma convert_root_additional_beside_properties:
  "convert_weaviate_result_to_document sample_env sample_store
     (sample_get_result @ [(''_additional'', PyDict [(''id'', PyStr ''other'')])]) True
     = Inr \<lparr>doc_id = PyStr ''00000000-0000-0000-0000-000000000001'', content = PyStr ''hello'',
            content_type = PyNone, meta = [(''name'', PyStr ''a'')], score = PyNone,
            embedding = PyList [PyFloat 1 0]\<rparr>"
  by (simp add: convert_weaviate_result_to_document_def sample_get_result_def sample_env_def
      sample_store_def sample_dumps_def sample_loads_def dict_get_def has_key_def py_str_def
      and_then_def Let_def)




section \<open>The sample index, evaluated\<close>

lemma not_uuid_doc:
  "\<not> UUID_PATTERN_match ''doc-1''" "\<not> UUID_PATTERN_match ''doc-2''"
  "\<not> UUID_PATTERN_match ''doc-3''" "\<not> UUID_PATTERN_match ''missing''"
  by (simp_all add: UUID_PATTERN_match_def uuid_groups_def)

lemma resolve_index_sample:
  "resolve_index sample_store None = Inr ''Document''"
  "resolve_index sample_store (Some ''Document'') = Inr ''Document''"
  by (simp_all add: resolve_index_def sanitize_index_name_def and_then_def sample_store_def
      upper_char_def)

lemma hexdigest_small:
  "hexdigest 19760 = ''0000000000000000000000000000000000000000000000000000000000004d30''"
  "hexdigest 19776 = ''0000000000000000000000000000000000000000000000000000000000004d40''"
  "hexdigest 19792 = ''0000000000000000000000000000000000000000000000000000000000004d50''"
  by (simp_all add: hexdigest_def hex_digit_def upt_rec drop_bit_eq_div)

lemma stored_ids:
  "stored_id ''doc-1'' = ''00000000-0000-0000-0000-000000000043''"
  "stored_id ''doc-2'' = ''00000000-0000-0000-0000-000000000044''"
  "stored_id ''doc-3'' = ''00000000-0000-0000-0000-000000000045''"
  by (simp_all add: stored_id_def sanitize_id_def resolve_index_sample
      and_then_def not_uuid_doc sample_hash_def hexdigest_small
      str_UUID_def is_hex_def lower_char_def)

lemma three_documents_eval:
  "three_documents =
    \<lparr>classes = [(''Document'', [(''name'', ''string''), (''content'', ''text''),
                               (''content_type'', ''string'')])],
     objects =
       [(''00000000-0000-0000-0000-000000000043'',
         \<lparr>obj_class = ''Document'',
          obj_props = [(''content'', PyStr (sample_dumps (PyStr ''doc-1''))),
                       (''content_type'', PyStr ''text'')],
          obj_vector = PyList [PyFloat 1 0]\<rparr>),
        (''00000000-0000-0000-0000-000000000044'',
         \<lparr>obj_class = ''Document'',
          obj_props = [(''content'', PyStr (sample_dumps (PyStr ''doc-2''))),
                       (''content_type'', PyStr ''text'')],
          obj_vector = PyList [PyFloat 1 0]\<rparr>),
        (''00000000-0000-0000-0000-000000000045'',
         \<lparr>obj_class = ''Document'',
          obj_props = [(''content'', PyStr (sample_dumps (PyStr ''doc-3''))),
                       (''content_type'', PyStr ''text'')],
          obj_vector = PyList [PyFloat 1 0]\<rparr>)],
     graphql_raw = (\<lambda>q. PyNone), calls = []\<rparr>"
  by (simp add: three_documents_def write_documents_def
      write_document_def flatten_doc_def
      check_document_def update_schema_def get_weaviate_type_of_value_def
      create_schema_and_index_if_not_exist_def get_current_properties_def
      get_date_properties_def class_properties_def class_date_properties_def
      be_schema_get_def be_schema_contains_def be_schema_create_def be_property_create_def
      be_batch_create_def has_class_def has_key_def dict_get_def dict_item_def py_str_def
      sample_doc_def stored_ids sample_env_def sample_store_def sample_date_def
      sample_dumps_def empty_backend_def headers_given_def resolve_index_sample
      resolve_index_def sanitize_index_name_def upper_char_def
      isinstance_int_def isinstance_float_def isinstance_bool_def io_defs Let_def)

lemma sample_store_fields:
  "index sample_store = ''Document''" "content_field sample_store = ''content''"
  "name_field sample_store = ''name''" "embedding_field sample_store = ''embedding''"
  "return_embedding sample_store = False" "custom_schema sample_store = None"
  by (simp_all add: sample_store_def)

lemma sample_env_fields:
  "sha256 sample_env = sample_hash" "convert_date_to_rfc3339 sample_env = sample_date"
  "json_loads sample_env = sample_loads" "json_dumps sample_env = sample_dumps"
  "convert_to_weaviate sample_env = (\<lambda>f. Some (PyDict f))"
  "where_matches sample_env = (\<lambda>f props. True)"
  by (simp_all add: sample_env_def)

lemma sample_roundtrip: "sample_loads (sample_dumps (PyStr s)) = Some (PyStr s)"
  by (simp add: sample_loads_def sample_dumps_def)

lemmas scan_defs = get_all_documents_def get_all_documents_generator_def
  get_all_documents_in_index_def get_current_properties_def be_schema_get_def
  class_properties_def be_query_get_def select_objects_def has_class_def query_shape_def
  additional_fields_def read_results_def py_contains_def py_get_def py_iterate_def
  convert_result_def convert_weaviate_result_to_document_def read_additional_def
  py_getitem_def dict_get_def dict_item_def has_key_def py_str_def

section \<open>Properties of fetching by id\<close>

lemma object_in_get_shape_calls [simp]:
  "object_in_get_shape (b\<lparr>calls := cs\<rparr>) uid = object_in_get_shape b uid"
  by (simp add: object_in_get_shape_def)

lemma be_get_by_id_run:
  "be_get_by_id uid b = (Inr (object_in_get_shape b uid), b\<lparr>calls := calls b @ [GetById uid]\<rparr>)"
  by (simp add: be_get_by_id_def io_defs)

lemma sanitize_id_normalised:
  assumes "resolve_index self (Some index') = Inr j"
  shows "sanitize_id (sha256 E) self ident (Some index') = Inr (normalised E self index' ident)"
  using sanitize_id_total [OF assms, of "sha256 E" ident]
  by (auto simp: normalised_def)

lemma get_documents_loop_run:
  assumes r: "resolve_index self (Some index') = Inr j"
    and conv: "\<forall>i \<in> set ids. truthy (object_in_get_shape b (normalised E self index' i)) \<longrightarrow>
                 (\<exists>d. convert_result E self (object_in_get_shape b (normalised E self index' i)) True
                        = Inr d)"
  shows "\<exists>docs. get_documents_loop E self index' acc ids b
            = (Inr (acc @ docs), b\<lparr>calls := calls b @ map (\<lambda>i. GetById (normalised E self index' i)) ids\<rparr>)
         \<and> map Inr docs
            = map (\<lambda>u. convert_result E self (object_in_get_shape b u) True)
                (filter (\<lambda>u. truthy (object_in_get_shape b u))
                   (map (normalised E self index') ids))"
  using conv
proof (induction ids arbitrary: acc b)
  case Nil
  then show ?case by (simp add: ret_def)
next
  case (Cons i ids)
  let ?u = "normalised E self index' i"
  let ?b1 = "b\<lparr>calls := calls b @ [GetById ?u]\<rparr>"
  have conv': "\<forall>i \<in> set ids. truthy (object_in_get_shape ?b1 (normalised E self index' i)) \<longrightarrow>
                 (\<exists>d. convert_result E self (object_in_get_shape ?b1 (normalised E self index' i)) True
                        = Inr d)"
    using Cons.prems by simp
  show ?case
  proof (cases "truthy (object_in_get_shape b ?u)")
    case False
    from Cons.IH [OF conv', of acc] obtain docs where
      "get_documents_loop E self index' acc ids ?b1
         = (Inr (acc @ docs), ?b1\<lparr>calls := calls ?b1 @ map (\<lambda>i. GetById (normalised E self index' i)) ids\<rparr>)"
      "map Inr docs
            = map (\<lambda>u. convert_result E self (object_in_get_shape b u) True)
                (filter (\<lambda>u. truthy (object_in_get_shape b u))
                   (map (normalised E self index') ids))"
      by auto
    with False show ?thesis
      by (simp add: sanitize_id_normalised [OF r] be_get_by_id_run io_defs)
  next
    case True
    with Cons.prems obtain d where
      d: "convert_result E self (object_in_get_shape b ?u) True = Inr d" by auto
    from Cons.IH [OF conv', of "acc @ [d]"] obtain docs where
      "get_documents_loop E self index' (acc @ [d]) ids ?b1
         = (Inr ((acc @ [d]) @ docs), ?b1\<lparr>calls := calls ?b1 @ map (\<lambda>i. GetById (normalised E self index' i)) ids\<rparr>)"
      "map Inr docs
            = map (\<lambda>u. convert_result E self (object_in_get_shape b u) True)
                (filter (\<lambda>u. truthy (object_in_get_shape b u))
                   (map (normalised E self index') ids))"
      by auto
    with True d show ?thesis
      by (intro exI [of _ "d # docs"])
         (simp add: sanitize_id_normalised [OF r] be_get_by_id_run io_defs)
  qed
qed

section \<open>Properties of deleting\<close>

lemma keeps_objects_bindm:
  "keeps_objects m \<Longrightarrow> (\<And>x. keeps_objects (f x)) \<Longrightarrow> keeps_objects (bindm m f)"
  unfolding keeps_objects_def bindm_def
  by (auto split: prod.split sum.split) (metis snd_conv)+

lemma keeps_objects_basic [simp]:
  "keeps_objects (ret x)" "keeps_objects (raise e)" "keeps_objects (lift r)"
  "keeps_objects (log_call c)"
  by (simp_all add: keeps_objects_def io_defs)

lemma keeps_objects_backend [simp]:
  "keeps_objects be_schema_get" "keeps_objects (be_schema_contains sch)"
  "keeps_objects (be_schema_create sch)" "keeps_objects (be_query_get E c ps flt lim)"
  by (simp_all add: keeps_objects_def be_schema_get_def be_schema_contains_def
      be_schema_create_def be_query_get_def io_defs)

lemma keeps_objects_create_schema [simp]:
  "keeps_objects (create_schema_and_index_if_not_exist self idx)"
  unfolding create_schema_and_index_if_not_exist_def Let_def
  by (intro keeps_objects_bindm) simp_all

lemma keeps_objects_get_all_documents [simp]:
  "keeps_objects (get_all_documents E self idx filters re headers)"
  unfolding get_all_documents_def get_all_documents_generator_def
    get_all_documents_in_index_def get_current_properties_def Let_def
  by (auto intro!: keeps_objects_bindm)

lemma delete_each_unlisted:
  "set uids \<inter> fst ` set (objects b) = {} \<Longrightarrow> objects (snd (delete_each uids b)) = objects b"
proof (induction uids arbitrary: b)
  case Nil
  then show ?case by (simp add: ret_def)
next
  case (Cons u uids)
  then have "u \<notin> fst ` set (objects b)" by auto
  then have keep: "AList.delete u (objects b) = objects b" by (rule delete_id)
  let ?b1 = "b\<lparr>calls := calls b @ [ObjectDelete u], objects := AList.delete u (objects b)\<rparr>"
  have "set uids \<inter> fst ` set (objects ?b1) = {}" using Cons.prems keep by auto
  from Cons.IH [OF this] keep show ?case
    by (simp add: be_object_delete_def io_defs)
qed

section \<open>Fetching and deleting by id, settled\<close>

lemma hexdigest_missing:
  "hexdigest 25488 = ''0000000000000000000000000000000000000000000000000000000000006390''"
  by (simp add: hexdigest_def hex_digit_def upt_rec drop_bit_eq_div)

lemma normalised_sample:
  "normalised sample_env sample_store ''Document'' ''doc-1'' = ''00000000-0000-0000-0000-000000000043''"
  "normalised sample_env sample_store ''Document'' ''doc-2'' = ''00000000-0000-0000-0000-000000000044''"
  "normalised sample_env sample_store ''Document'' ''doc-3'' = ''00000000-0000-0000-0000-000000000045''"
  "normalised sample_env sample_store ''Document'' ''missing'' = ''00000000-0000-0000-0000-000000000069''"
  by (simp_all add: normalised_def sanitize_id_def resolve_index_sample sample_env_fields
      and_then_def not_uuid_doc sample_hash_def hexdigest_small hexdigest_missing
      str_UUID_def is_hex_def lower_char_def)

lemma get_shape_sample:
  "object_in_get_shape three_documents ''00000000-0000-0000-0000-000000000069'' = PyNone"
  "object_in_get_shape three_documents ''00000000-0000-0000-0000-000000000043''
     = PyDict [(''class'', PyStr ''Document''),
               (''id'', PyStr ''00000000-0000-0000-0000-000000000043''),
               (''properties'', PyDict [(''content'', PyStr (sample_dumps (PyStr ''doc-1''))),
                                        (''content_type'', PyStr ''text'')]),
               (''vector'', PyList [PyFloat 1 0])]"
  "object_in_get_shape three_documents ''00000000-0000-0000-0000-000000000044''
     = PyDict [(''class'', PyStr ''Document''),
               (''id'', PyStr ''00000000-0000-0000-0000-000000000044''),
               (''properties'', PyDict [(''content'', PyStr (sample_dumps (PyStr ''doc-2''))),
                                        (''content_type'', PyStr ''text'')]),
               (''vector'', PyList [PyFloat 1 0])]"
  "object_in_get_shape three_documents ''00000000-0000-0000-0000-000000000045''
     = PyDict [(''class'', PyStr ''Document''),
               (''id'', PyStr ''00000000-0000-0000-0000-000000000045''),
               (''properties'', PyDict [(''content'', PyStr (sample_dumps (PyStr ''doc-3''))),
                                        (''content_type'', PyStr ''text'')]),
               (''vector'', PyList [PyFloat 1 0])]"
  by (simp_all add: object_in_get_shape_def three_documents_eval)

lemma convert_get_shape:
  "convert_result sample_env sample_store
     (PyDict [(''class'', PyStr ''Document''), (''id'', PyStr u),
              (''properties'', PyDict [(''content'', PyStr (sample_dumps (PyStr n))),
                                       (''content_type'', PyStr ''text'')]),
              (''vector'', PyList [PyFloat 1 0])]) True
   = Inr \<lparr>doc_id = PyStr u, content = PyStr n, content_type = PyStr ''text'', meta = [],
          score = PyNone, embedding = PyList [PyFloat 1 0]\<rparr>"
  by (simp add: convert_result_def convert_weaviate_result_to_document_def dict_get_def
      has_key_def py_str_def sample_env_fields sample_store_fields sample_roundtrip
      and_then_def Let_def)

lemma count_three:
  "fst (get_document_count sample_env sample_store None None False None three_documents)
     = Inr (PyInt 3)"
  by (simp add: three_documents_eval get_document_count_def headers_given_def filters_given_def
      resolve_index_sample be_aggregate_def select_objects_def has_class_def read_count_def
      py_contains_def py_get_def py_getitem_def py_first_def dict_get_def dict_item_def
      has_key_def io_defs)

lemma delete_doc2:
  "delete_documents sample_env sample_store None (Some [''doc-2'']) None None three_documents
     = (Inr (), three_documents\<lparr>calls :=
          [SchemaContains [(''Document'', [(''name'', ''string''), (''content'', ''text'')])],
           SchemaGet,
           QueryGet ''Document'' [''name'', ''content'', ''content_type'', additional_fields]
             None None]\<rparr>)"
  by (simp add: three_documents_eval delete_documents_def headers_given_def filters_given_def
      ids_given_def resolve_index_sample create_schema_and_index_if_not_exist_def
      be_schema_contains_def scan_defs document_id_def
      sample_env_fields sample_store_fields sample_roundtrip io_defs Let_def)

text \<open>A stored document is deleted when its stored id is listed.\<close>

lemma delete_by_stored_id:
  "map fst (objects (snd (delete_documents sample_env sample_store None
                            (Some [''00000000-0000-0000-0000-000000000044'']) None None
                            three_documents)))
     = [''00000000-0000-0000-0000-000000000043'', ''00000000-0000-0000-0000-000000000045'']"
  by (simp add: three_documents_eval delete_documents_def headers_given_def filters_given_def
      ids_given_def resolve_index_sample create_schema_and_index_if_not_exist_def
      be_schema_contains_def be_object_delete_def scan_defs document_id_def
      sample_env_fields sample_store_fields sample_roundtrip io_defs Let_def)

text \<open>
  Claim C6. When no found document fails to convert, \<^verbatim>\<open>get_documents_by_id\<close>
  returns the documents of the ids that the backend holds, in the order of
  the input ids, and nothing for an id it does not hold. It issues one
  \<^verbatim>\<open>get_by_id\<close> per input id, in order, each with the normalised id, and no
  other call.
\<close>

theorem get_documents_by_id_found_in_order:
  assumes "resolve_index self idx = Inr index'"
    and "resolve_index self (Some index') = Inr j"
    and "\<forall>i \<in> set ids. truthy (object_in_get_shape b (normalised E self index' i)) \<longrightarrow>
           (\<exists>d. convert_result E self (object_in_get_shape b (normalised E self index' i)) True
                  = Inr d)"
  shows "\<exists>docs. get_documents_by_id E self ids idx None b
            = (Inr docs, b\<lparr>calls := calls b @ map (\<lambda>i. GetById (normalised E self index' i)) ids\<rparr>)
         \<and> map Inr docs
            = map (\<lambda>u. convert_result E self (object_in_get_shape b u) True)
                (filter (\<lambda>u. truthy (object_in_get_shape b u))
                   (map (normalised E self index') ids))"
  using get_documents_loop_run [OF assms(2,3), of "[]"] assms(1)
  by (simp add: get_documents_by_id_def headers_given_def io_defs)


theorem get_documents_by_id_found_in_order_witness:
  "get_documents_by_id sample_env sample_store [''doc-3'', ''missing'', ''doc-1''] None None
     three_documents
   = (Inr [\<lparr>doc_id = PyStr ''00000000-0000-0000-0000-000000000045'', content = PyStr ''doc-3'',
             content_type = PyStr ''text'', meta = [], score = PyNone,
             embedding = PyList [PyFloat 1 0]\<rparr>,
           \<lparr>doc_id = PyStr ''00000000-0000-0000-0000-000000000043'', content = PyStr ''doc-1'',
             content_type = PyStr ''text'', meta = [], score = PyNone,
             embedding = PyList [PyFloat 1 0]\<rparr>],
      three_documents\<lparr>calls := [GetById ''00000000-0000-0000-0000-000000000045'',
                                  GetById ''00000000-0000-0000-0000-000000000069'',
                                  GetById ''00000000-0000-0000-0000-000000000043'']\<rparr>)"
proof -
  have conv: "\<forall>i \<in> set [''doc-3'', ''missing'', ''doc-1''].
      truthy (object_in_get_shape three_documents (normalised sample_env sample_store ''Document'' i)) \<longrightarrow>
      (\<exists>d. convert_result sample_env sample_store
              (object_in_get_shape three_documents (normalised sample_env sample_store ''Document'' i))
              True = Inr d)"
    by (simp add: normalised_sample get_shape_sample convert_get_shape)
  from get_documents_by_id_found_in_order [OF resolve_index_sample conv]
  obtain docs where run: "get_documents_by_id sample_env sample_store
        [''doc-3'', ''missing'', ''doc-1''] None None three_documents
      = (Inr docs, three_documents\<lparr>calls := calls three_documents
           @ map (\<lambda>i. GetById (normalised sample_env sample_store ''Document'' i))
               [''doc-3'', ''missing'', ''doc-1'']\<rparr>)"
    and docs: "map Inr docs
      = map (\<lambda>u. convert_result sample_env sample_store (object_in_get_shape three_documents u) True)
          (filter (\<lambda>u. truthy (object_in_get_shape three_documents u))
             (map (normalised sample_env sample_store ''Document'')
                [''doc-3'', ''missing'', ''doc-1'']))"
    by blast
  from docs have "map Inr docs
      = [Inr \<lparr>doc_id = PyStr ''00000000-0000-0000-0000-000000000045'', content = PyStr ''doc-3'',
             content_type = PyStr ''text'', meta = [], score = PyNone,
             embedding = PyList [PyFloat 1 0]\<rparr>,
         Inr \<lparr>doc_id = PyStr ''00000000-0000-0000-0000-000000000043'', content = PyStr ''doc-1'',
             content_type = PyStr ''text'', meta = [], score = PyNone,
             embedding = PyList [PyFloat 1 0]\<rparr> :: error + document]"
    by (simp add: normalised_sample get_shape_sample convert_get_shape)
  then have "docs = [\<lparr>doc_id = PyStr ''00000000-0000-0000-0000-000000000045'', content = PyStr ''doc-3'',
             content_type = PyStr ''text'', meta = [], score = PyNone,
             embedding = PyList [PyFloat 1 0]\<rparr>,
         \<lparr>doc_id = PyStr ''00000000-0000-0000-0000-000000000043'', content = PyStr ''doc-1'',
             content_type = PyStr ''text'', meta = [], score = PyNone,
             embedding = PyList [PyFloat 1 0]\<rparr>]"
    by (auto simp: map_eq_Cons_conv)
  with run show ?thesis
    by (simp add: normalised_sample three_documents_eval)
qed

text \<open>
  Claim C1. \<^verbatim>\<open>delete_documents\<close> compares the ids of the stored documents,
  which are normalised, with the ids of the list as the caller gave them
  (line 1172); it does not normalise the list. So a call with ids of which
  none is itself a stored id deletes nothing. In the index of three documents
  written under \<^verbatim>\<open>doc-1\<close>, \<^verbatim>\<open>doc-2\<close>, \<^verbatim>\<open>doc-3\<close> the count is 3; after
  \<^verbatim>\<open>delete_documents(ids=["doc-2"])\<close> it is still 3 and
  \<^verbatim>\<open>get_document_by_id("doc-2")\<close> still returns the document.
\<close>

theorem delete_documents_by_ids_keeps_unlisted:
  assumes "ids \<noteq> []" and "set ids \<inter> fst ` set (objects b) = {}"
  shows "objects (snd (delete_documents E self idx (Some ids) filters headers b)) = objects b"
proof -
  have del: "objects (snd (delete_each (map (document_id E)
                 (filter (\<lambda>doc. document_id E doc \<in> set ids) docs)) b')) = objects b"
    if "objects b' = objects b" for docs b'
  proof -
    have "set (map (document_id E) (filter (\<lambda>doc. document_id E doc \<in> set ids) docs))
            \<inter> fst ` set (objects b') = {}"
      using assms(2) that by auto
    from delete_each_unlisted [OF this] that show ?thesis by simp
  qed
  have step: "objects (snd (bindm m f b')) = objects b"
    if "keeps_objects m" "objects b' = objects b"
      "\<And>x b''. objects b'' = objects b \<Longrightarrow> objects (snd (f x b'')) = objects b"
    for m :: "'a io" and f :: "'a \<Rightarrow> 'b io" and b'
  proof (cases "m b'")
    case (Pair r b'')
    with that(1,2) have "objects b'' = objects b"
      unfolding keeps_objects_def by (metis snd_conv)
    with Pair that(3) show ?thesis
      by (cases r) (simp_all add: bindm_def)
  qed
  show ?thesis
    unfolding delete_documents_def
    using assms(1)
    by (auto simp: ids_given_def raise_def Let_def intro!: step del)
qed


theorem delete_documents_by_ids_keeps_unlisted_witness:
  "[''doc-2''] \<noteq> ([] :: string list)
   \<and> set [''doc-2''] \<inter> fst ` set (objects three_documents) = {}
   \<and> fst (get_document_count sample_env sample_store None None False None three_documents)
       = Inr (PyInt 3)
   \<and> objects (snd (delete_documents sample_env sample_store None (Some [''doc-2'']) None None
                     three_documents))
       = objects three_documents
   \<and> fst (get_document_count sample_env sample_store None None False None
            (snd (delete_documents sample_env sample_store None (Some [''doc-2'']) None None
                    three_documents)))
       = Inr (PyInt 3)
   \<and> fst (get_document_by_id sample_env sample_store ''doc-2'' None None
            (snd (delete_documents sample_env sample_store None (Some [''doc-2'']) None None
                    three_documents)))
       = Inr (Some \<lparr>doc_id = PyStr ''00000000-0000-0000-0000-000000000044'',
                    content = PyStr ''doc-2'', content_type = PyStr ''text'', meta = [],
                    score = PyNone, embedding = PyList [PyFloat 1 0]\<rparr>)"
proof -
  have ne: "[''doc-2''] \<noteq> ([] :: string list)" by simp
  have disj: "set [''doc-2''] \<inter> fst ` set (objects three_documents) = {}"
    by (simp add: three_documents_eval)
  note kept = delete_documents_by_ids_keeps_unlisted [OF ne disj, of sample_env sample_store
      None None None]
  have after: "fst (get_document_count sample_env sample_store None None False None
            (snd (delete_documents sample_env sample_store None (Some [''doc-2'']) None None
                    three_documents))) = Inr (PyInt 3)"
    unfolding delete_doc2
    by (simp add: three_documents_eval get_document_count_def headers_given_def
      filters_given_def resolve_index_sample be_aggregate_def select_objects_def has_class_def
      read_count_def py_contains_def py_get_def py_getitem_def py_first_def dict_get_def
      dict_item_def has_key_def io_defs)
  have still: "fst (get_document_by_id sample_env sample_store ''doc-2'' None None
            (snd (delete_documents sample_env sample_store None (Some [''doc-2'']) None None
                    three_documents)))
       = Inr (Some \<lparr>doc_id = PyStr ''00000000-0000-0000-0000-000000000044'',
                    content = PyStr ''doc-2'', content_type = PyStr ''text'', meta = [],
                    score = PyNone, embedding = PyList [PyFloat 1 0]\<rparr>)"
    unfolding delete_doc2
    using sanitize_id_normalised [OF resolve_index_sample(2), of sample_env "''doc-2''"]
    by (simp add: get_document_by_id_def headers_given_def resolve_index_sample
      normalised_sample be_get_by_id_run get_shape_sample convert_get_shape io_defs)
  from ne disj count_three kept after still show ?thesis by blast
qed

section \<open>Properties of the schema snapshot\<close>

lemma migrated_names_simps [simp]:
  "migrated_names [] = []"
  "migrated_names (cs @ cs') = migrated_names cs @ migrated_names cs'"
  "migrated_names [PropertyCreate i nm ty] = [nm]"
  "migrated_names [SchemaGet] = []"
  "migrated_names [BatchCreate items] = []"
  "migrated_names [SchemaContains sch] = []"
  "migrated_names [SchemaCreate sch] = []"
  by (simp_all add: migrated_names_def)

lemma update_schema_calls:
  assumes "update_schema E self p v idx b = (r, b')"
  shows "(\<exists>e. r = Inl e \<and> b' = b)
       \<or> (\<exists>i ty. calls b' = calls b @ [PropertyCreate i p ty])"
  using assms
  by (auto simp: update_schema_def be_property_create_def io_defs
      split: sum.splits if_splits)

lemma add_missing_props_calls:
  assumes "add_missing_props E self index' doc cur missing b = (r, b')"
  shows "\<exists>cs. calls b' = calls b @ cs
          \<and> (\<exists>rest. missing = migrated_names cs @ rest)
          \<and> (\<forall>cur'. r = Inr cur' \<longrightarrow> migrated_names cs = missing \<and> cur' = cur @ missing)"
  using assms
proof (induction missing arbitrary: cur b)
  case Nil
  then show ?case by (auto simp: ret_def)
next
  case (Cons p missing)
  show ?case
  proof (cases "dict_item doc p")
    case (Inl e)
    with Cons.prems show ?thesis by (auto simp: io_defs)
  next
    case (Inr v)
    obtain r1 b1 where u: "update_schema E self p v (Some index') b = (r1, b1)"
      by (cases "update_schema E self p v (Some index') b")
    show ?thesis
    proof (cases r1)
      case (Inl e)
      with Cons.prems Inr u have rb: "r = Inl e" "b' = b1" by (auto simp: io_defs)
      from update_schema_calls [OF u] Inl
      consider "b1 = b" | i ty where "calls b1 = calls b @ [PropertyCreate i p ty]" by auto
      then show ?thesis
      proof cases
        case 1
        with rb show ?thesis by (intro exI [of _ "[]"]) simp
      next
        case 2
        with rb show ?thesis by (intro exI [of _ "[PropertyCreate i p ty]"]) simp
      qed
    next
      case (Inr x)
      with update_schema_calls [OF u] obtain i ty
        where c1: "calls b1 = calls b @ [PropertyCreate i p ty]" by auto
      from Cons.prems \<open>dict_item doc p = Inr v\<close> u Inr
      have rest: "add_missing_props E self index' doc (cur @ [p]) missing b1 = (r, b')"
        by (simp add: io_defs)
      from Cons.IH [OF rest] obtain cs where
        cs: "calls b' = calls b1 @ cs" "\<exists>rest. missing = migrated_names cs @ rest"
        "\<forall>cur'. r = Inr cur' \<longrightarrow> migrated_names cs = missing \<and> cur' = (cur @ [p]) @ missing"
        by blast
      with c1 show ?thesis
        by (intro exI [of _ "PropertyCreate i p ty # cs"]) (auto simp: migrated_names_def)
    qed
  qed
qed


lemma migration_step_compose:
  assumes "migration_step K1 cur b (Inr cur1) b1" and "migration_step K2 cur1 b1 r b'"
  shows "migration_step (K1 \<union> K2) cur b r b'"
proof -
  from assms(1) obtain cs1 where 1: "calls b1 = calls b @ cs1" "distinct (migrated_names cs1)"
    "set (migrated_names cs1) \<subseteq> K1 - set cur" "cur1 = cur @ migrated_names cs1" "K1 \<subseteq> set cur1"
    unfolding migration_step_def by blast
  from assms(2) obtain cs2 where 2: "calls b' = calls b1 @ cs2" "distinct (migrated_names cs2)"
    "set (migrated_names cs2) \<subseteq> K2 - set cur1"
    "\<forall>cur'. r = Inr cur' \<longrightarrow> cur' = cur1 @ migrated_names cs2 \<and> K2 \<subseteq> set cur'"
    unfolding migration_step_def by blast
  have "calls b' = calls b @ (cs1 @ cs2)" using 1 2 by simp
  moreover have "distinct (migrated_names (cs1 @ cs2))" using 1 2 by auto
  moreover have "set (migrated_names (cs1 @ cs2)) \<subseteq> (K1 \<union> K2) - set cur" using 1 2 by auto
  moreover have "\<forall>cur'. r = Inr cur' \<longrightarrow>
      cur' = cur @ migrated_names (cs1 @ cs2) \<and> K1 \<union> K2 \<subseteq> set cur'"
    using 1 2 by auto
  ultimately show ?thesis unfolding migration_step_def by blast
qed

lemma migration_step_abort:
  "migration_step K1 cur b (Inl e) b1 \<Longrightarrow> migration_step (K1 \<union> K2) cur b (Inl e) b1"
  unfolding migration_step_def by auto

lemma migration_step_quiet:
  "calls b' = calls b @ cs \<Longrightarrow> migrated_names cs = [] \<Longrightarrow> migration_step {} cur b (Inr cur) b'"
  unfolding migration_step_def by auto

lemma migration_step_quiet_abort:
  "calls b' = calls b @ cs \<Longrightarrow> migrated_names cs = [] \<Longrightarrow> migration_step {} cur b (Inl e) b'"
  unfolding migration_step_def by auto

lemma distinct_fold_update:
  "distinct (map fst d) \<Longrightarrow> distinct (map fst (foldl (\<lambda>d (k, v). AList.update k v d) d m))"
  by (induction m arbitrary: d) (auto simp: distinct_update)

lemma flatten_doc_distinct:
  assumes "flatten_doc E self doc = Inr (i, vec, d)" "distinct (map fst doc)"
  shows "distinct (map fst d)"
  using assms
  by (auto simp: flatten_doc_def and_then_def Let_def distinct_delete distinct_update
      distinct_fold_update split: if_splits pyval.splits sum.splits)

lemma check_document_props:
  "distinct (map fst d) \<Longrightarrow> distinct (check_document cur d)"
  "set (check_document cur d) = set (map fst d) - set cur"
  by (auto simp: check_document_def)

lemma get_date_properties_calls:
  "get_date_properties self idx b = (r, b') \<Longrightarrow>
     b' = b \<or> calls b' = calls b @ [SchemaGet]"
  by (auto simp: get_date_properties_def be_schema_get_def io_defs split: sum.splits)

lemma write_document_step:
  assumes run: "write_document E self index' cur doc b = (r, b')"
    and wf: "distinct (map fst doc)"
  shows "migration_step (set (flat_keys E self doc)) cur b (map_sum id fst r) b'"
proof (cases "flatten_doc E self doc")
  case (Inl e)
  with run have "r = Inl e" "b' = b" by (auto simp: write_document_def io_defs)
  then show ?thesis unfolding migration_step_def by (intro exI [of _ "[]"]) simp
next
  case (Inr t)
  then obtain i vec d where fl: "flatten_doc E self doc = Inr (i, vec, d)" by (cases t) auto
  then have keys: "flat_keys E self doc = map fst d" by (simp add: flat_keys_def)
  have dd: "distinct (map fst d)" using flatten_doc_distinct [OF fl wf] .
  obtain r1 b1 where am: "add_missing_props E self index' d cur (check_document cur d) b = (r1, b1)"
    by (cases "add_missing_props E self index' d cur (check_document cur d) b")
  from add_missing_props_calls [OF am] obtain cs where
    cs: "calls b1 = calls b @ cs" "\<exists>rest. check_document cur d = migrated_names cs @ rest"
    "\<forall>cur'. r1 = Inr cur' \<longrightarrow> migrated_names cs = check_document cur d
                                  \<and> cur' = cur @ check_document cur d"
    by blast
  from cs(2) check_document_props [where d = d and cur = cur] dd
  have ms: "distinct (migrated_names cs)"
    "set (migrated_names cs) \<subseteq> set (flat_keys E self doc) - set cur"
    unfolding keys by (metis distinct_append, metis Un_upper1 set_append)
  show ?thesis
  proof (cases r1)
    case (Inl e)
    with run fl am have "r = Inl e" "b' = b1" by (auto simp: write_document_def io_defs)
    with cs(1) ms show ?thesis unfolding migration_step_def by auto
  next
    case (Inr cur1)
    with cs(3) have c1: "migrated_names cs = check_document cur d" "cur1 = cur @ check_document cur d"
      by auto
    then have full: "set (flat_keys E self doc) \<subseteq> set cur1"
      unfolding keys using check_document_props(2) [where d = d and cur = cur] by auto
    obtain r2 b2 where gd: "get_date_properties self (Some index') b1 = (r2, b2)"
      by (cases "get_date_properties self (Some index') b1")
    from get_date_properties_calls [OF gd]
    obtain cs2 where cs2: "calls b2 = calls b1 @ cs2" "migrated_names cs2 = []"
      by (metis append_Nil2 migrated_names_simps(1,4))
    have "(\<exists>e. r = Inl e \<and> b' = b2) \<or> (\<exists>item. r = Inr (cur1, item) \<and> b' = b2)"
      using run fl am Inr gd
      by (auto simp: write_document_def io_defs split: sum.splits)
    with cs(1) cs2 ms c1(2) c1(1) [symmetric] full show ?thesis
      unfolding migration_step_def
      by (intro exI [of _ "cs @ cs2"]) (auto, blast)
  qed
qed

lemma written_fields_simps [simp]:
  "written_fields E self [] = {}"
  "written_fields E self (d # ds) = set (flat_keys E self d) \<union> written_fields E self ds"
  "written_fields E self (ds @ ds') = written_fields E self ds \<union> written_fields E self ds'"
  by (simp_all add: written_fields_def)

lemma write_batch_step:
  assumes "write_batch E self index' cur acc docs b = (r, b')"
    and "\<forall>d \<in> set docs. distinct (map fst d)"
  shows "migration_step (written_fields E self docs) cur b r b'"
  using assms
proof (induction docs arbitrary: cur acc b)
  case Nil
  then have "r = Inr cur" "calls b' = calls b @ [BatchCreate acc]"
    by (auto simp: be_batch_create_def io_defs)
  then show ?case using migration_step_quiet [of b' b "[BatchCreate acc]" cur] by simp
next
  case (Cons doc docs)
  obtain r1 b1 where w: "write_document E self index' cur doc b = (r1, b1)"
    by (cases "write_document E self index' cur doc b")
  from Cons.prems(2) have wf: "distinct (map fst doc)" "\<forall>d \<in> set docs. distinct (map fst d)"
    by simp_all
  note one = write_document_step [OF w wf(1)]
  show ?case
  proof (cases r1)
    case (Inl e)
    with Cons.prems(1) w have "r = Inl e" "b' = b1" by (auto simp: bindm_def)
    with one Inl show ?thesis using migration_step_abort by simp
  next
    case (Inr t)
    then obtain cur1 item where t: "r1 = Inr (cur1, item)" by (cases t) auto
    with Cons.prems(1) w
    have "write_batch E self index' cur1 (acc @ [item]) docs b1 = (r, b')"
      by (simp add: bindm_def)
    from Cons.IH [OF this wf(2)] one t show ?thesis
      using migration_step_compose by simp
  qed
qed

lemma write_batches_step:
  assumes "write_batches E self index' cur batches b = (r, b')"
    and "\<forall>d \<in> set (concat batches). distinct (map fst d)"
  shows "migration_step (written_fields E self (concat batches)) cur b r b'"
  using assms
proof (induction batches arbitrary: cur b)
  case Nil
  then show ?case using migration_step_quiet [of b b "[]" cur] by (simp add: ret_def)
next
  case (Cons batch batches)
  obtain r1 b1 where w: "write_batch E self index' cur [] batch b = (r1, b1)"
    by (cases "write_batch E self index' cur [] batch b")
  from Cons.prems(2) have wf: "\<forall>d \<in> set batch. distinct (map fst d)"
    "\<forall>d \<in> set (concat batches). distinct (map fst d)"
    by simp_all
  note one = write_batch_step [OF w wf(1)]
  show ?case
  proof (cases r1)
    case (Inl e)
    with Cons.prems(1) w have "r = Inl e" "b' = b1" by (auto simp: bindm_def)
    with one Inl show ?thesis using migration_step_abort by simp
  next
    case (Inr cur1)
    with Cons.prems(1) w
    have "write_batches E self index' cur1 batches b1 = (r, b')"
      by (simp add: bindm_def)
    from Cons.IH [OF this wf(2)] one Inr show ?thesis
      using migration_step_compose by simp
  qed
qed

lemma create_schema_quiet:
  assumes "resolve_index self idx = Inr i"
  shows "\<exists>b0 cs0. create_schema_and_index_if_not_exist self idx b = (Inr (), b0)
            \<and> calls b0 = calls b @ cs0 \<and> migrated_names cs0 = []"
  using assms
  by (auto simp: create_schema_and_index_if_not_exist_def be_schema_contains_def
      be_schema_create_def io_defs Let_def migrated_names_def)

lemma get_current_properties_ok:
  "resolve_index self idx = Inr i \<Longrightarrow>
   get_current_properties self idx b
     = (Inr (class_properties i (classes b)), b\<lparr>calls := calls b @ [SchemaGet]\<rparr>)"
  by (simp add: get_current_properties_def be_schema_get_def io_defs)

lemmas write_defs = write_documents_def write_document_def flatten_doc_def
  check_document_def update_schema_def get_weaviate_type_of_value_def
  create_schema_and_index_if_not_exist_def get_current_properties_def
  get_date_properties_def class_properties_def class_date_properties_def
  be_schema_get_def be_schema_contains_def be_schema_create_def be_property_create_def
  be_batch_create_def has_class_def has_key_def dict_get_def dict_item_def py_str_def
  convert_date_def sample_doc_def stored_ids sample_env_fields sample_store_fields sample_date_def
  empty_backend_def headers_given_def resolve_index_sample
  isinstance_int_def isinstance_float_def isinstance_bool_def

lemma write_sample_batches:
  "fst (write_documents sample_env sample_store sample_batches None None empty_backend)
     = Inr [''name'', ''content'', ''content_type'', ''author'', ''year'']"
  by (simp add: sample_batches_def write_defs io_defs Let_def)

lemma sample_snapshot:
  "class_properties ''Document''
     (classes (snd (create_schema_and_index_if_not_exist sample_store (Some ''Document'')
                      empty_backend)))
   = [''name'', ''content'']"
  by (simp add: write_defs io_defs Let_def)

lemma sample_written_fields:
  "written_fields sample_env sample_store (concat sample_batches)
     = {''content'', ''content_type'', ''author'', ''year''}"
  by (auto simp: written_fields_def flat_keys_def sample_batches_def write_defs io_defs Let_def)

text \<open>
  Claim C4. \<^verbatim>\<open>write_documents\<close> reads the property list once, after it has made
  sure the index exists, and carries it through all batches as its snapshot.
  In every run, completed or aborted, no property name is migrated twice, and
  every migrated name is a property of a written document that the snapshot
  lacked. When the call completes, the migrated names are exactly the
  properties of the written documents that the snapshot lacked, and the final
  snapshot is the first one followed by them. The documents are dicts: their
  keys are distinct.
\<close>

theorem write_documents_migrates_each_missing_property_once:
  assumes wf: "\<forall>d \<in> set (concat batched_documents). distinct (map fst d)"
    and idx: "resolve_index self idx = Inr index'" "resolve_index self (Some index') = Inr j"
    and run: "write_documents E self batched_documents idx None b = (r, b')"
  shows "let snapshot = class_properties j (classes
                          (snd (create_schema_and_index_if_not_exist self (Some index') b)));
             migrated = migrated_names (new_calls b b');
             names = written_fields E self (concat batched_documents)
         in distinct migrated
          \<and> set migrated \<subseteq> names - set snapshot
          \<and> (\<forall>final. r = Inr final \<and> concat batched_documents \<noteq> [] \<longrightarrow>
                final = snapshot @ migrated \<and> set migrated = names - set snapshot)"
proof -
  from create_schema_quiet [OF idx(2), of b] obtain b0 cs0 where
    c: "create_schema_and_index_if_not_exist self (Some index') b = (Inr (), b0)"
    "calls b0 = calls b @ cs0" "migrated_names cs0 = []" by blast
  let ?snap = "class_properties j (classes b0)"
  let ?K = "written_fields E self (concat batched_documents)"
  show ?thesis
  proof (cases "concat batched_documents = []")
    case True
    with run idx c have "b' = b0" "r = Inr []"
      by (simp_all add: write_documents_def headers_given_def io_defs del: concat_eq_Nil_conv)
    with c True show ?thesis by (simp add: new_calls_def Let_def)
  next
    case False
    let ?b1 = "b0\<lparr>calls := calls b0 @ [SchemaGet]\<rparr>"
    from run idx c False
    have "write_batches E self index' ?snap batched_documents ?b1 = (r, b')"
      by (simp add: write_documents_def headers_given_def get_current_properties_ok io_defs
          del: concat_eq_Nil_conv)
    from write_batches_step [OF this wf] obtain cs where
      cs: "calls b' = calls ?b1 @ cs" "distinct (migrated_names cs)"
      "set (migrated_names cs) \<subseteq> ?K - set ?snap"
      "\<forall>cur'. r = Inr cur' \<longrightarrow> cur' = ?snap @ migrated_names cs \<and> ?K \<subseteq> set cur'"
      unfolding migration_step_def by blast
    have "new_calls b b' = cs0 @ [SchemaGet] @ cs"
      using cs(1) c(2) by (simp add: new_calls_def)
    then have m: "migrated_names (new_calls b b') = migrated_names cs"
      using c(3) by (simp add: migrated_names_def)
    have "set (migrated_names cs) = ?K - set ?snap" if "r = Inr final" for final
      using cs(3) cs(4) that by auto
    with cs m c(1) show ?thesis by (auto simp: Let_def)
  qed
qed


theorem write_documents_migrates_each_missing_property_once_witness:
  "fst (write_documents sample_env sample_store sample_batches None None empty_backend)
     = Inr [''name'', ''content'', ''content_type'', ''author'', ''year'']
   \<and> class_properties ''Document''
       (classes (snd (create_schema_and_index_if_not_exist sample_store (Some ''Document'')
                        empty_backend)))
     = [''name'', ''content'']
   \<and> written_fields sample_env sample_store (concat sample_batches)
     = {''content'', ''content_type'', ''author'', ''year''}
   \<and> migrated_names (new_calls empty_backend
         (snd (write_documents sample_env sample_store sample_batches None None empty_backend)))
     = [''content_type'', ''author'', ''year'']"
proof -
  have wf: "\<forall>d \<in> set (concat sample_batches). distinct (map fst d)"
    by (simp add: sample_batches_def sample_doc_def)
  have run: "write_documents sample_env sample_store sample_batches None None empty_backend
      = (Inr [''name'', ''content'', ''content_type'', ''author'', ''year''],
         snd (write_documents sample_env sample_store sample_batches None None empty_backend))"
    using write_sample_batches by (metis prod.collapse)
  have ne: "concat sample_batches \<noteq> []" by (simp add: sample_batches_def)
  from write_documents_migrates_each_missing_property_once
         [OF wf resolve_index_sample run, unfolded Let_def sample_snapshot] ne
  have "[''name'', ''content'', ''content_type'', ''author'', ''year'']
          = [''name'', ''content''] @ migrated_names (new_calls empty_backend
         (snd (write_documents sample_env sample_store sample_batches None None empty_backend)))"
    by blast
  then have "migrated_names (new_calls empty_backend
         (snd (write_documents sample_env sample_store sample_batches None None empty_backend)))
     = [''content_type'', ''author'', ''year'']"
    by simp
  with write_sample_batches sample_snapshot sample_written_fields show ?thesis by blast
qed

section \<open>Properties of the date coercion\<close>

lemma has_key_update: "has_key k (AList.update k' v d) = (k = k' \<or> has_key k d)"
  by (auto simp: has_key_def update_keys)

lemma dict_item_missing: "\<not> has_key f d \<Longrightarrow> dict_item d f = Inl (KeyError f)"
  by (simp add: dict_item_def has_key_map_of)

lemma dict_item_present: "has_key f d \<Longrightarrow> \<exists>v. dict_item d f = Inr v"
  by (auto simp: dict_item_def has_key_map_of)

lemma convert_date_no_KeyError: "convert_date E v \<noteq> Inl (KeyError k)"
  by (cases v) (simp_all add: convert_date_def split: option.split)

lemma coerce_dates_keeps_keys:
  "coerce_dates E fs d = Inr d' \<Longrightarrow> has_key k d' = has_key k d"
proof (induction fs arbitrary: d)
  case Nil
  then show ?case by simp
next
  case (Cons f fs)
  from Cons.prems obtain v v' where
    s: "dict_item d f = Inr v" "convert_date E v = Inr v'"
    "coerce_dates E fs (AList.update f v' d) = Inr d'"
    by (auto simp: and_then_def split: sum.splits)
  from s(1) have "has_key f d"
    using dict_item_missing [of f d] by (cases "has_key f d") auto
  with Cons.IH [OF s(3)] show ?case by (auto simp: has_key_update)
qed

lemma coerce_dates_completes_only_with_values:
  "coerce_dates E fs d = Inr d' \<Longrightarrow> list_all (\<lambda>f. has_key f d) fs"
proof (induction fs arbitrary: d)
  case Nil
  then show ?case by simp
next
  case (Cons f fs)
  from Cons.prems obtain v v' where
    s: "dict_item d f = Inr v" "convert_date E v = Inr v'"
    "coerce_dates E fs (AList.update f v' d) = Inr d'"
    by (auto simp: and_then_def split: sum.splits)
  from s(1) have k: "has_key f d"
    using dict_item_missing [of f d] by (cases "has_key f d") auto
  from Cons.IH [OF s(3)] k have "list_all (\<lambda>f. has_key f d) fs"
    by (auto simp: list_all_iff has_key_update)
  with k show ?case by simp
qed

lemma coerce_dates_no_KeyError:
  "list_all (\<lambda>f. has_key f d) fs \<Longrightarrow> coerce_dates E fs d \<noteq> Inl (KeyError k)"
proof (induction fs arbitrary: d)
  case Nil
  then show ?case by simp
next
  case (Cons f fs)
  then have "has_key f d" by simp
  then obtain v where v: "dict_item d f = Inr v" using dict_item_present by blast
  show ?case
  proof (cases "convert_date E v")
    case (Inl e)
    with v convert_date_no_KeyError [of E v k] show ?thesis by (auto simp: and_then_def)
  next
    case (Inr v')
    have "list_all (\<lambda>f. has_key f (AList.update f v' d)) fs"
      using Cons.prems by (auto simp: list_all_iff has_key_update)
    moreover have "list_all (\<lambda>g. has_key g (AList.update f v' d)) fs"
      using Cons.prems by (auto simp: list_all_iff has_key_update)
    ultimately show ?thesis using v Inr Cons.IH [of "AList.update f v' d"]
      by (simp add: and_then_def)
  qed
qed

lemma coerce_dates_append:
  "coerce_dates E (fs @ gs) d = and_then (coerce_dates E fs d) (coerce_dates E gs)"
  by (induction fs arbitrary: d) (auto simp: and_then_def split: sum.splits)

lemma coerce_dates_first_missing:
  assumes "coerce_dates E fs d = Inr d1" "\<not> has_key f d"
  shows "coerce_dates E (fs @ f # rest) d = Inl (KeyError f)"
proof -
  from assms have "\<not> has_key f d1" using coerce_dates_keeps_keys by blast
  then show ?thesis
    using assms(1) by (simp add: coerce_dates_append and_then_def dict_item_missing)
qed

lemma get_date_properties_ok:
  "resolve_index self idx = Inr i \<Longrightarrow>
   get_date_properties self idx b
     = (Inr (class_date_properties i (classes b)), b\<lparr>calls := calls b @ [SchemaGet]\<rparr>)"
  by (simp add: get_date_properties_def be_schema_get_def io_defs)

lemma write_document_outcome:
  assumes "flatten_doc E self doc = Inr (uid, vec, d)"
    and "add_missing_props E self index' d cur (check_document cur d) b = (Inr cur', b1)"
    and "resolve_index self (Some index') = Inr j"
  shows "fst (write_document E self index' cur doc b)
           = (case coerce_dates E (class_date_properties j (classes b1)) d of
                Inl e \<Rightarrow> Inl e
              | Inr d' \<Rightarrow> Inr (cur', uid, index', d', vec))"
  using assms
  by (simp add: write_document_def get_date_properties_ok io_defs split: sum.split)

lemma write_batch_aborts_with_document:
  "write_document E self index' cur doc b = (Inl e, b1) \<Longrightarrow>
   write_batch E self index' cur acc (doc # docs) b = (Inl e, b1)"
  by (simp add: bindm_def)

lemma flatten_sample_doc:
  "flatten_doc sample_env sample_store (sample_doc ''doc-2'' [])
     = Inr (''00000000-0000-0000-0000-000000000044'', PyList [PyFloat 1 0],
            [(''content'', PyStr (sample_dumps (PyStr ''doc-2''))),
             (''content_type'', PyStr ''text'')])"
  "flatten_doc sample_env sample_store (sample_doc ''doc-1'' [(''published'', PyStr ''2020-01-01'')])
     = Inr (''00000000-0000-0000-0000-000000000043'', PyList [PyFloat 1 0],
            [(''content'', PyStr (sample_dumps (PyStr ''doc-1''))),
             (''content_type'', PyStr ''text''), (''published'', PyStr ''2020-01-01'')])"
  by (simp_all add: flatten_doc_def sample_doc_def stored_ids has_key_def dict_get_def
      dict_item_def py_str_def sample_env_fields sample_store_fields and_then_def Let_def)

lemma dated_backend_fields:
  "class_date_properties ''Document'' (classes dated_backend) = [''published'']"
  "add_missing_props sample_env sample_store ''Document'' d dated_snapshot [] dated_backend
     = (Inr dated_snapshot, dated_backend)"
  by (simp_all add: class_date_properties_def dated_backend_def ret_def)

lemma write_dated_batches:
  "fst (write_documents sample_env sample_store dated_batches None None empty_backend)
     = Inl (KeyError ''published'')"
  "objects (snd (write_documents sample_env sample_store dated_batches None None empty_backend))
     = []"
  by (simp_all add: dated_batches_def write_defs io_defs Let_def)


text \<open>
  Claim C10. In \<^verbatim>\<open>write_documents\<close>, once a document is flattened and the
  schema is extended with its new properties, the date properties of the
  schema are read and each is looked up in the flat dict (lines 518-520). The
  document passes this step only if it has a value for each of them; if it
  has, the step never raises KeyError; if it has not, the step raises, and
  what it raises is the KeyError of the first date property without a value
  when the date properties before it were converted. The exception leaves the
  loop, so the whole call aborts: a document without the date \<^verbatim>\<open>published\<close>
  that follows one which introduced it aborts the call before anything is
  stored.
\<close>

theorem write_document_needs_every_date_property:
  assumes "flatten_doc E self doc = Inr (uid, vec, d)"
    and "add_missing_props E self index' d cur (check_document cur d) b = (Inr cur', b1)"
    and "resolve_index self (Some index') = Inr j"
  shows "let date_fields = class_date_properties j (classes b1);
             outcome = fst (write_document E self index' cur doc b)
         in ((\<exists>x. outcome = Inr x) \<longrightarrow> list_all (\<lambda>f. has_key f d) date_fields)
          \<and> (list_all (\<lambda>f. has_key f d) date_fields \<longrightarrow> (\<forall>k. outcome \<noteq> Inl (KeyError k)))
          \<and> (\<not> list_all (\<lambda>f. has_key f d) date_fields \<longrightarrow> (\<exists>e. outcome = Inl e))
          \<and> (\<forall>fs f rest d1. date_fields = fs @ f # rest \<and> coerce_dates E fs d = Inr d1
                 \<and> \<not> has_key f d \<longrightarrow> outcome = Inl (KeyError f))"
proof -
  let ?dfs = "class_date_properties j (classes b1)"
  let ?out = "fst (write_document E self index' cur doc b)"
  note out = write_document_outcome [OF assms]
  have 1: "list_all (\<lambda>f. has_key f d) ?dfs" if "?out = Inr x" for x
  proof -
    from that out obtain d' where "coerce_dates E ?dfs d = Inr d'"
      by (auto split: sum.splits)
    then show ?thesis by (rule coerce_dates_completes_only_with_values)
  qed
  have 2: "?out \<noteq> Inl (KeyError k)" if "list_all (\<lambda>f. has_key f d) ?dfs" for k
    using coerce_dates_no_KeyError [OF that, of E k] out by (auto split: sum.splits)
  have 3: "\<exists>e. ?out = Inl e" if "\<not> list_all (\<lambda>f. has_key f d) ?dfs"
    using 1 that by (cases ?out) auto
  have 4: "?out = Inl (KeyError f)"
    if "?dfs = fs @ f # rest" "coerce_dates E fs d = Inr d1" "\<not> has_key f d" for fs f rest d1
    using coerce_dates_first_missing [OF that(2,3), of rest] out that(1) by simp
  from 1 2 3 4 show ?thesis unfolding Let_def by blast
qed

theorem write_document_needs_every_date_property_witness:
  "class_date_properties ''Document'' (classes dated_backend) = [''published'']
   \<and> fst (write_document sample_env sample_store ''Document'' dated_snapshot
            (sample_doc ''doc-2'' []) dated_backend)
       = Inl (KeyError ''published'')
   \<and> (\<exists>x. fst (write_document sample_env sample_store ''Document'' dated_snapshot
                 (sample_doc ''doc-1'' [(''published'', PyStr ''2020-01-01'')]) dated_backend)
            = Inr x)
   \<and> fst (write_documents sample_env sample_store dated_batches None None empty_backend)
       = Inl (KeyError ''published'')
   \<and> objects (snd (write_documents sample_env sample_store dated_batches None None
                     empty_backend))
       = []"
proof -
  have none: "check_document dated_snapshot
               [(''content'', PyStr (sample_dumps (PyStr ''doc-2''))),
                (''content_type'', PyStr ''text'')] = []"
    by (simp add: check_document_def dated_snapshot_def)
  have am: "add_missing_props sample_env sample_store ''Document''
              [(''content'', PyStr (sample_dumps (PyStr ''doc-2''))),
               (''content_type'', PyStr ''text'')]
              dated_snapshot
              (check_document dated_snapshot
                 [(''content'', PyStr (sample_dumps (PyStr ''doc-2''))),
                  (''content_type'', PyStr ''text'')])
              dated_backend
            = (Inr dated_snapshot, dated_backend)"
    unfolding none by (rule dated_backend_fields(2))
  note all = write_document_needs_every_date_property
      [OF flatten_sample_doc(1) am resolve_index_sample(2), unfolded Let_def dated_backend_fields(1)]
  have missing: "\<not> has_key ''published''
                  [(''content'', PyStr (sample_dumps (PyStr ''doc-2''))),
                   (''content_type'', PyStr ''text'')]"
    by (simp add: has_key_def)
  from all missing
  have abort: "fst (write_document sample_env sample_store ''Document'' dated_snapshot
            (sample_doc ''doc-2'' []) dated_backend) = Inl (KeyError ''published'')"
    by (metis append_Nil coerce_dates.simps(1))
  have ok: "\<exists>x. fst (write_document sample_env sample_store ''Document'' dated_snapshot
                 (sample_doc ''doc-1'' [(''published'', PyStr ''2020-01-01'')]) dated_backend)
            = Inr x"
    by (simp add: write_document_def flatten_sample_doc check_document_def dated_snapshot_def
        get_date_properties_ok resolve_index_sample dated_backend_fields(1)
        dict_item_def convert_date_def sample_env_fields sample_date_def io_defs)
  from dated_backend_fields(1) abort ok write_dated_batches show ?thesis by blast
qed

end
